theory Spec2Isabelle
  imports Complex_Main "HOL-Library.AList" "HOL-Library.Sublist"
begin

section \<open>JavaScript values as the fetch helpers see them\<close>

text \<open>
  The helpers of \<^verbatim>\<open>data.js\<close> work on whatever \<^verbatim>\<open>r.json()\<close> returns, so the model
  starts from JSON values. \<open>JUndefined\<close> is not a JSON value; it is what reading a missing
  property gives. Numbers are the finite values (every double is a rational; the sign of
  zero is not kept, no operation used here can see it) and the two infinities that
  \<^verbatim>\<open>JSON.parse\<close> produces on overflow. An object is the list of its own properties; the
  first binding of a name is the property.
\<close>

datatype jsnum = Finite rat | PlusInfinity | MinusInfinity

datatype jsval =
    JUndefined
  | JNull
  | JBool bool
  | JNum jsnum
  | JStr string
  | JArr "jsval list"
  | JObj "(string \<times> jsval) list"

text \<open>
  What the helpers throw or reject with: \<open>Error msg\<close> is \<^verbatim>\<open>throw new Error(msg)\<close>,
  \<open>TypeError\<close> is the runtime error of reading a property of \<^verbatim>\<open>null\<close>/\<^verbatim>\<open>undefined\<close>,
  of calling a value that is not a function, of converting an object with no usable
  \<^verbatim>\<open>toString\<close>, or of \<^verbatim>\<open>new URL\<close> on a string that is no URL; \<open>FetchRejected\<close> is the
  rejection of \<^verbatim>\<open>fetch()\<close> (transport failure) and \<open>BodyRejected\<close> the rejection of
  \<^verbatim>\<open>r.json()\<close> (the body cannot be read as JSON).
\<close>

datatype error = Error string | TypeError | FetchRejected | BodyRejected

text \<open>
  The parts of the platform whose results the language leaves to the implementation or
  that need floating point: \<^verbatim>\<open>Date.parse\<close> on a string (\<open>None\<close> is \<^verbatim>\<open>NaN\<close>, otherwise
  milliseconds since the epoch), \<^verbatim>\<open>Number.prototype.toString\<close>, and whether \<^verbatim>\<open>new URL(s)\<close>
  accepts \<open>s\<close>. Every theorem below holds for every platform.
\<close>

record platform =
  dateParse :: "string \<Rightarrow> int option"
  numberToString :: "jsnum \<Rightarrow> string"
  urlParses :: "string \<Rightarrow> bool"

subsection \<open>Truthiness, property reads, string conversion\<close>

fun truthy :: "jsval \<Rightarrow> bool" where
  "truthy JUndefined = False"
| "truthy JNull = False"
| "truthy (JBool b) = b"
| "truthy (JNum n) = (n \<noteq> Finite 0)"
| "truthy (JStr s) = (s \<noteq> [])"
| "truthy (JArr xs) = True"
| "truthy (JObj kvs) = True"

text \<open>\<^verbatim>\<open>a || b\<close> on values.\<close>

definition orElse :: "jsval \<Rightarrow> jsval \<Rightarrow> jsval" where
  "orElse a b = (if truthy a then a else b)"

text \<open>
  \<^verbatim>\<open>v.p\<close> for the property names the helpers read (\<^verbatim>\<open>features\<close>, \<^verbatim>\<open>properties\<close>,
  \<^verbatim>\<open>geometry\<close>, \<^verbatim>\<open>coordinates\<close>, \<^verbatim>\<open>STATION_NUMBER\<close>, \<^verbatim>\<open>PARAMETER\<close>, \<^verbatim>\<open>DATE\<close>,
  \<^verbatim>\<open>message\<close>): none of them is on a prototype, so the read gives the own property or
  \<^verbatim>\<open>undefined\<close>, and throws on \<^verbatim>\<open>null\<close> and \<^verbatim>\<open>undefined\<close>.
\<close>

fun getProp :: "jsval \<Rightarrow> string \<Rightarrow> error + jsval" where
  "getProp JUndefined p = Inl TypeError"
| "getProp JNull p = Inl TypeError"
| "getProp (JObj kvs) p = Inr (case map_of kvs p of None \<Rightarrow> JUndefined | Some v \<Rightarrow> v)"
| "getProp v p = Inr JUndefined"

text \<open>
  The abstract operation ToString, and \<^verbatim>\<open>Array.prototype.join(",")\<close> which the
  conversion of an array goes through (\<^verbatim>\<open>null\<close> and \<^verbatim>\<open>undefined\<close> elements give the
  empty string). A parsed object has no callable property of its own: when it has an own
  \<^verbatim>\<open>toString\<close> the conversion finds nothing to call and throws, otherwise
  \<^verbatim>\<open>Object.prototype.toString\<close> answers.
\<close>

fun ToString :: "platform \<Rightarrow> jsval \<Rightarrow> error + string"
  and join :: "platform \<Rightarrow> jsval list \<Rightarrow> error + string" where
  "ToString P JUndefined = Inr ''undefined''"
| "ToString P JNull = Inr ''null''"
| "ToString P (JBool b) = Inr (if b then ''true'' else ''false'')"
| "ToString P (JNum n) = Inr (numberToString P n)"
| "ToString P (JStr s) = Inr s"
| "ToString P (JArr xs) = join P xs"
| "ToString P (JObj kvs) =
     (if map_of kvs ''toString'' = None then Inr ''[object Object]'' else Inl TypeError)"
| "join P [] = Inr []"
| "join P (x # xs) =
     (case (if x = JUndefined \<or> x = JNull then Inr [] else ToString P x) of
        Inl e \<Rightarrow> Inl e
      | Inr s \<Rightarrow>
          (if xs = [] then Inr s
           else (case join P xs of Inl e \<Rightarrow> Inl e | Inr t \<Rightarrow> Inr (s @ '','' @ t))))"

text \<open>The method call \<^verbatim>\<open>v.toString()\<close>.\<close>

definition callToString :: "platform \<Rightarrow> jsval \<Rightarrow> error + string" where
  "callToString P v = (if v = JUndefined \<or> v = JNull then Inl TypeError else ToString P v)"

subsection \<open>Dates\<close>

text \<open>
  \<^verbatim>\<open>new Date(v)\<close> with one argument: an object or array is first converted to a
  primitive (which is its string, or throws); a string goes to \<^verbatim>\<open>Date.parse\<close>;
  anything else goes through ToNumber and TimeClip. The result is the time value of the
  date, \<open>None\<close> for an invalid date.
\<close>

definition timeClip :: "jsnum \<Rightarrow> int option" where
  "timeClip n =
     (case n of
        Finite q \<Rightarrow>
          (if \<bar>q\<bar> \<le> 8640000000000000 then Some (if 0 \<le> q then \<lfloor>q\<rfloor> else \<lceil>q\<rceil>) else None)
      | PlusInfinity \<Rightarrow> None
      | MinusInfinity \<Rightarrow> None)"

fun newDate :: "platform \<Rightarrow> jsval \<Rightarrow> error + int option" where
  "newDate P JUndefined = Inr None"
| "newDate P JNull = Inr (Some 0)"
| "newDate P (JBool b) = Inr (Some (if b then 1 else 0))"
| "newDate P (JNum n) = Inr (timeClip n)"
| "newDate P (JStr s) = Inr (dateParse P s)"
| "newDate P v = (case ToString P v of Inl e \<Rightarrow> Inl e | Inr s \<Rightarrow> Inr (dateParse P s))"

text \<open>
  \<^verbatim>\<open>d1 > d2\<close> on two dates compares their time values as numbers; a comparison
  with \<^verbatim>\<open>NaN\<close> is false.
\<close>

fun timeGreater :: "int option \<Rightarrow> int option \<Rightarrow> bool" where
  "timeGreater (Some x) (Some y) = (y < x)"
| "timeGreater ta tb = False"

subsection \<open>Sequencing computations that may throw\<close>

definition andThen :: "error + 'a \<Rightarrow> ('a \<Rightarrow> error + 'b) \<Rightarrow> error + 'b" where
  "andThen r f = (case r of Inl e \<Rightarrow> Inl e | Inr v \<Rightarrow> f v)"

text \<open>\<^verbatim>\<open>xs.map(f)\<close>, \<^verbatim>\<open>xs.filter(p)\<close> and \<^verbatim>\<open>xs.find(p)\<close> with a callback that may throw.\<close>

fun mapE :: "('a \<Rightarrow> error + 'b) \<Rightarrow> 'a list \<Rightarrow> error + 'b list" where
  "mapE f [] = Inr []"
| "mapE f (x # xs) = andThen (f x) (\<lambda>y. andThen (mapE f xs) (\<lambda>ys. Inr (y # ys)))"

fun filterE :: "('a \<Rightarrow> error + bool) \<Rightarrow> 'a list \<Rightarrow> error + 'a list" where
  "filterE p [] = Inr []"
| "filterE p (x # xs) =
     andThen (p x) (\<lambda>b. andThen (filterE p xs) (\<lambda>ys. Inr (if b then x # ys else ys)))"

fun findE :: "(jsval \<Rightarrow> error + bool) \<Rightarrow> jsval list \<Rightarrow> error + jsval" where
  "findE p [] = Inr JUndefined"
| "findE p (x # xs) = andThen (p x) (\<lambda>b. if b then Inr x else findE p xs)"

text \<open>
  The receiver of \<^verbatim>\<open>.map\<close> and \<^verbatim>\<open>.find\<close>: only an array has these methods; on any
  other value the call is a call of \<^verbatim>\<open>undefined\<close> (or of a parsed value) and throws.
\<close>

fun asArray :: "jsval \<Rightarrow> error + jsval list" where
  "asArray (JArr xs) = Inr xs"
| "asArray v = Inl TypeError"

text \<open>\<^verbatim>\<open>xs[i]\<close> on an array: \<^verbatim>\<open>undefined\<close> out of range.\<close>

definition elemAt :: "jsval list \<Rightarrow> nat \<Rightarrow> jsval" where
  "elemAt xs i = (if i < length xs then xs ! i else JUndefined)"

section \<open>HTTP\<close>

text \<open>
  A request is the address given to \<^verbatim>\<open>new URL\<close> and the search parameters set on it,
  in the order they were set. \<^verbatim>\<open>fetch\<close> either rejects or resolves to a response with a
  status and a body; \<open>body = None\<close> is a body that \<^verbatim>\<open>r.json()\<close> rejects. The network
  answers each request (the requests one helper issues differ, so this fixes nothing
  about how one answer depends on another); every helper returns the requests it issued,
  in order, beside its result. \<^verbatim>\<open>logDebug\<close> writes a line to the page and the console
  and returns; its lines are not part of the model, only what building a line can throw.
\<close>

datatype request = Request (address: string) (searchParams: "(string \<times> string) list")

datatype response = Response (status: nat) (body: "jsval option")

datatype fetched = Rejected | Resolved response

type_synonym network = "request \<Rightarrow> fetched"

text \<open>\<^verbatim>\<open>r.ok\<close>\<close>

definition ok :: "response \<Rightarrow> bool" where
  "ok r = (200 \<le> status r \<and> status r \<le> 299)"

text \<open>The decimal digits of a status, as the template literal \<^verbatim>\<open>${r.status}\<close> writes it.\<close>

fun showNat :: "nat \<Rightarrow> string" where
  "showNat n =
     (if n < 10 then [''0123456789'' ! n]
      else showNat (n div 10) @ [''0123456789'' ! (n mod 10)])"

declare showNat.simps [simp del]

text \<open>
  The body shared by the four closures \<^verbatim>\<open>tryCql\<close> and \<^verbatim>\<open>tryUnfiltered\<close>:
  \<^verbatim>\<open>const r = await fetch(url); if (!r.ok) throw new Error(`<label>: ${r.status}`); return r.json()\<close>
\<close>

definition fetchJson :: "network \<Rightarrow> request \<Rightarrow> string \<Rightarrow> error + jsval" where
  "fetchJson net rq label =
     (case net rq of
        Rejected \<Rightarrow> Inl FetchRejected
      | Resolved r \<Rightarrow>
          (if \<not> ok r then Inl (Error (label @ '': '' @ showNat (status r)))
           else (case body r of None \<Rightarrow> Inl BodyRejected | Some j \<Rightarrow> Inr j)))"

definition OGC_BASE :: string where
  "OGC_BASE = ''https://api.weather.gc.ca/collections''"

text \<open>The CQL filter text \<^verbatim>\<open>STATION_NUMBER='<stationNumber>'\<close>.\<close>

definition cqlFilter :: "string \<Rightarrow> string" where
  "cqlFilter stationNumber = ''STATION_NUMBER='' @ [CHR 0x27] @ stationNumber @ [CHR 0x27]"

section \<open>Station metadata\<close>

definition stationsCqlRequest :: "string \<Rightarrow> request" where
  "stationsCqlRequest stationNumber =
     Request (OGC_BASE @ ''/hydrometric-stations/items'')
       [(''filter'', cqlFilter stationNumber), (''filter-lang'', ''cql-text''),
        (''f'', ''json''), (''limit'', ''1'')]"

definition stationsUnfilteredRequest :: request where
  "stationsUnfilteredRequest =
     Request (OGC_BASE @ ''/hydrometric-stations/items'')
       [(''f'', ''json''), (''limit'', ''1000'')]"

definition stationsTryCql :: "network \<Rightarrow> string \<Rightarrow> error + jsval" where
  "stationsTryCql net stationNumber =
     fetchJson net (stationsCqlRequest stationNumber) (''stations meta '' @ stationNumber)"

definition stationsTryUnfiltered :: "network \<Rightarrow> string \<Rightarrow> error + jsval" where
  "stationsTryUnfiltered net stationNumber =
     fetchJson net stationsUnfilteredRequest (''stations meta (fallback) '' @ stationNumber)"

text \<open>
  \<^verbatim>\<open>let json = await tryCql().catch(async e => { logDebug(...); return tryUnfiltered(); })\<close>:
  the second request is issued in the \<^verbatim>\<open>catch\<close> handler, that is when \<^verbatim>\<open>tryCql\<close>
  threw or rejected, and only then. (What \<^verbatim>\<open>tryCql\<close> rejects with is an Error object,
  so building the log line cannot throw.)
\<close>

definition stationsJson :: "network \<Rightarrow> string \<Rightarrow> request list \<times> (error + jsval)" where
  "stationsJson net stationNumber =
     (case stationsTryCql net stationNumber of
        Inr j \<Rightarrow> ([stationsCqlRequest stationNumber], Inr j)
      | Inl e \<Rightarrow>
          ([stationsCqlRequest stationNumber, stationsUnfilteredRequest],
           stationsTryUnfiltered net stationNumber))"

text \<open>\<^verbatim>\<open>(x.properties?.STATION_NUMBER || "").toString()\<close>\<close>

definition stationIdOf :: "platform \<Rightarrow> jsval \<Rightarrow> error + string" where
  "stationIdOf P x =
     andThen (getProp x ''properties'') (\<lambda>p.
     andThen (if p = JUndefined \<or> p = JNull then Inr JUndefined
              else getProp p ''STATION_NUMBER'') (\<lambda>v.
     callToString P (orElse v (JStr []))))"

text \<open>\<^verbatim>\<open>feats.find(x => (...).toString() === stationNumber) || feats[0]\<close>\<close>

definition selectFeature :: "platform \<Rightarrow> string \<Rightarrow> jsval list \<Rightarrow> error + jsval" where
  "selectFeature P stationNumber feats =
     andThen (findE (\<lambda>x. andThen (stationIdOf P x) (\<lambda>s. Inr (s = stationNumber))) feats)
       (\<lambda>found. Inr (orElse found (elemAt feats 0)))"

record stationMeta =
  lat :: jsval
  lon :: jsval
  props :: jsval

text \<open>
  The geometry check and the result:
  \<^verbatim>\<open>if (!f || !f.geometry || !Array.isArray(f.geometry.coordinates)) throw new Error(...)\<close>,
  \<^verbatim>\<open>const [lon, lat] = f.geometry.coordinates; return { lat, lon, props: f.properties || {} }\<close>
\<close>

definition noGeometry :: "string \<Rightarrow> error" where
  "noGeometry stationNumber = Error (''No geometry for station '' @ stationNumber)"

definition locate :: "string \<Rightarrow> jsval \<Rightarrow> error + stationMeta" where
  "locate stationNumber f =
     (if \<not> truthy f then Inl (noGeometry stationNumber)
      else
        andThen (getProp f ''geometry'') (\<lambda>g.
        if \<not> truthy g then Inl (noGeometry stationNumber)
        else
          andThen (getProp g ''coordinates'') (\<lambda>c.
          (case c of
             JArr cs \<Rightarrow>
               andThen (getProp f ''properties'') (\<lambda>p.
               Inr \<lparr>lat = elemAt cs 1, lon = elemAt cs 0, props = orElse p (JObj [])\<rparr>)
           | _ \<Rightarrow> Inl (noGeometry stationNumber)))))"

text \<open>\<^verbatim>\<open>const feats = json.features || []\<close>, then the selection and the geometry check.\<close>

definition stationFromJson :: "platform \<Rightarrow> string \<Rightarrow> jsval \<Rightarrow> error + stationMeta" where
  "stationFromJson P stationNumber j =
     andThen (getProp j ''features'') (\<lambda>fs.
     andThen (asArray (orElse fs (JArr []))) (\<lambda>feats.
     andThen (selectFeature P stationNumber feats) (locate stationNumber)))"

definition fetchHydrometricStationMeta ::
  "platform \<Rightarrow> network \<Rightarrow> string \<Rightarrow> request list \<times> (error + stationMeta)" where
  "fetchHydrometricStationMeta P net stationNumber =
     (case stationsJson net stationNumber of
        (reqs, r) \<Rightarrow> (reqs, andThen r (stationFromJson P stationNumber)))"

section \<open>Latest realtime values per parameter\<close>

definition realtimeCqlRequest :: "string \<Rightarrow> request" where
  "realtimeCqlRequest stationNumber =
     Request (OGC_BASE @ ''/hydrometric-realtime/items'')
       [(''filter'', cqlFilter stationNumber), (''filter-lang'', ''cql-text''),
        (''f'', ''json''), (''limit'', ''5000'')]"

definition realtimeUnfilteredRequest :: request where
  "realtimeUnfilteredRequest =
     Request (OGC_BASE @ ''/hydrometric-realtime/items'')
       [(''f'', ''json''), (''limit'', ''5000'')]"

definition realtimeTryCql :: "network \<Rightarrow> string \<Rightarrow> error + jsval" where
  "realtimeTryCql net stationNumber =
     fetchJson net (realtimeCqlRequest stationNumber) (''realtime '' @ stationNumber)"

definition realtimeTryUnfiltered :: "network \<Rightarrow> string \<Rightarrow> error + jsval" where
  "realtimeTryUnfiltered net stationNumber =
     fetchJson net realtimeUnfilteredRequest (''realtime (fallback) '' @ stationNumber)"

definition realtimeJson :: "network \<Rightarrow> string \<Rightarrow> request list \<times> (error + jsval)" where
  "realtimeJson net stationNumber =
     (case realtimeTryCql net stationNumber of
        Inr j \<Rightarrow> ([realtimeCqlRequest stationNumber], Inr j)
      | Inl e \<Rightarrow>
          ([realtimeCqlRequest stationNumber, realtimeUnfilteredRequest],
           realtimeTryUnfiltered net stationNumber))"

text \<open>\<^verbatim>\<open>let rows = (json.features || []).map(f => f.properties || {})\<close>\<close>

definition rowOf :: "jsval \<Rightarrow> error + jsval" where
  "rowOf f = andThen (getProp f ''properties'') (\<lambda>p. Inr (orElse p (JObj [])))"

definition realtimeRows :: "jsval \<Rightarrow> error + jsval list" where
  "realtimeRows j =
     andThen (getProp j ''features'') (\<lambda>fs.
     andThen (asArray (orElse fs (JArr []))) (mapE rowOf))"

text \<open>\<^verbatim>\<open>(r.STATION_NUMBER || "").toString() === stationNumber\<close>\<close>

definition stationMatches :: "platform \<Rightarrow> string \<Rightarrow> jsval \<Rightarrow> error + bool" where
  "stationMatches P stationNumber r =
     andThen (getProp r ''STATION_NUMBER'') (\<lambda>v.
     andThen (callToString P (orElse v (JStr []))) (\<lambda>s. Inr (s = stationNumber)))"

text \<open>
  The local filter:
  \<^verbatim>\<open>if (rows.length && !rows[0].STATION_NUMBER) { /* keep all */ } else { rows = rows.filter(...) }\<close>
\<close>

definition localRows :: "platform \<Rightarrow> string \<Rightarrow> jsval list \<Rightarrow> error + jsval list" where
  "localRows P stationNumber rows =
     (case rows of
        [] \<Rightarrow> filterE (stationMatches P stationNumber) rows
      | r0 # rest \<Rightarrow>
          andThen (getProp r0 ''STATION_NUMBER'') (\<lambda>v.
          if \<not> truthy v then Inr rows
          else filterE (stationMatches P stationNumber) rows))"

subsection \<open>Keep most recent per parameter\<close>

text \<open>
  \<^verbatim>\<open>byParam\<close> is a \<^verbatim>\<open>Map\<close>: its keys are compared with SameValueZero, so a
  primitive key is compared by value and an array or object key by identity. Every
  array or object in a parsed body is an object of its own, so the identity of the
  \<^verbatim>\<open>PARAMETER\<close> of a row is given by the position of the row. The map keeps its entries
  in the order the keys were first set; \<^verbatim>\<open>set\<close> on a key already there replaces the
  value in place (\<open>AList.update\<close>), \<^verbatim>\<open>get\<close> on a key not there gives \<^verbatim>\<open>undefined\<close>.
\<close>

datatype mapkey = ByValue jsval | ByIdentity nat

fun mapKey :: "nat \<Rightarrow> jsval \<Rightarrow> mapkey" where
  "mapKey i (JArr xs) = ByIdentity i"
| "mapKey i (JObj kvs) = ByIdentity i"
| "mapKey i v = ByValue v"

definition mapGet :: "(mapkey \<times> jsval) list \<Rightarrow> mapkey \<Rightarrow> jsval" where
  "mapGet m k = (case map_of m k of None \<Rightarrow> JUndefined | Some v \<Rightarrow> v)"

text \<open>\<^verbatim>\<open>new Date(row.DATE)\<close>\<close>

definition rowDate :: "platform \<Rightarrow> jsval \<Rightarrow> error + int option" where
  "rowDate P row = andThen (getProp row ''DATE'') (newDate P)"

text \<open>\<^verbatim>\<open>new Date(row.DATE) > new Date(prev.DATE)\<close>, the left date built first.\<close>

definition isLater :: "platform \<Rightarrow> jsval \<Rightarrow> jsval \<Rightarrow> error + bool" where
  "isLater P row prev =
     andThen (rowDate P row) (\<lambda>ta.
     andThen (rowDate P prev) (\<lambda>tb. Inr (timeGreater ta tb)))"

text \<open>
  The loop
  \<^verbatim>\<open>for (const row of rows) { const key = row.PARAMETER; const prev = byParam.get(key);
  if (!prev || new Date(row.DATE) > new Date(prev.DATE)) byParam.set(key, row); }\<close>
  over the rows paired with their positions.
\<close>

fun keepLatest ::
  "platform \<Rightarrow> (mapkey \<times> jsval) list \<Rightarrow> (nat \<times> jsval) list \<Rightarrow> error + (mapkey \<times> jsval) list" where
  "keepLatest P byParam [] = Inr byParam"
| "keepLatest P byParam ((i, row) # rest) =
     andThen (getProp row ''PARAMETER'') (\<lambda>k.
     (let key = mapKey i k; prev = mapGet byParam key in
      if \<not> truthy prev then keepLatest P (AList.update key row byParam) rest
      else
        andThen (isLater P row prev) (\<lambda>later.
        keepLatest P (if later then AList.update key row byParam else byParam) rest)))"

text \<open>\<^verbatim>\<open>const byParam = new Map(); for (...) {...}; return Array.from(byParam.values())\<close>\<close>

definition mostRecentPerParameter :: "platform \<Rightarrow> jsval list \<Rightarrow> error + jsval list" where
  "mostRecentPerParameter P rows =
     andThen (keepLatest P [] (enumerate 0 rows)) (\<lambda>byParam. Inr (map snd byParam))"

definition latestFromJson :: "platform \<Rightarrow> string \<Rightarrow> jsval \<Rightarrow> error + jsval list" where
  "latestFromJson P stationNumber j =
     andThen (realtimeRows j) (\<lambda>rows.
     andThen (localRows P stationNumber rows) (mostRecentPerParameter P))"

definition fetchHydrometricRealtimeLatest ::
  "platform \<Rightarrow> network \<Rightarrow> string \<Rightarrow> request list \<times> (error + jsval list)" where
  "fetchHydrometricRealtimeLatest P net stationNumber =
     (case realtimeJson net stationNumber of
        (reqs, r) \<Rightarrow> (reqs, andThen r (latestFromJson P stationNumber)))"

section \<open>ArcGIS feature layers\<close>

text \<open>\<^verbatim>\<open>featureServerUrl.replace(/\/+$/, "")\<close>: the trailing slashes are removed.\<close>

definition stripTrailingSlashes :: "string \<Rightarrow> string" where
  "stripTrailingSlashes s = rev (dropWhile (\<lambda>c. c = CHR ''/'') (rev s))"

definition layerRequest :: "string \<Rightarrow> string \<Rightarrow> request" where
  "layerRequest featureServerUrl geometry =
     Request (stripTrailingSlashes featureServerUrl @ ''/query'')
       [(''where'', ''1=1''), (''outFields'', ''*''), (''geometry'', geometry),
        (''geometryType'', ''esriGeometryEnvelope''), (''inSR'', ''4326''),
        (''spatialRel'', ''esriSpatialRelIntersects''), (''outSR'', ''4326''),
        (''f'', ''geojson'')]"

text \<open>
  \<^verbatim>\<open>new URL(...)\<close> throws on a string that is no URL, \<^verbatim>\<open>bbox.join(",")\<close> converts the
  elements of the box; then one \<^verbatim>\<open>fetch\<close>, the status check, and \<^verbatim>\<open>r.json()\<close>.
\<close>

definition fetchArcGISLayerGeoJSON ::
  "platform \<Rightarrow> network \<Rightarrow> string \<Rightarrow> jsval list \<Rightarrow> request list \<times> (error + jsval)" where
  "fetchArcGISLayerGeoJSON P net featureServerUrl bbox =
     (if \<not> urlParses P (stripTrailingSlashes featureServerUrl @ ''/query'') then ([], Inl TypeError)
      else
        (case join P bbox of
           Inl e \<Rightarrow> ([], Inl e)
         | Inr geometry \<Rightarrow>
             ([layerRequest featureServerUrl geometry],
              fetchJson net (layerRequest featureServerUrl geometry) ''ArcGIS layer'')))"

section \<open>tryOrNull\<close>

text \<open>
  A promise settles with a value or with a rejection value. A rejection value is an
  Error object (its name and its message) or any other value. \<^verbatim>\<open>tryOrNull\<close> builds the
  log line \<^verbatim>\<open>`... ${label} ${e.message || e}`\<close> in its \<^verbatim>\<open>catch\<close> block before it
  returns \<^verbatim>\<open>null\<close>; \<open>None\<close> is that \<^verbatim>\<open>null\<close>.
\<close>

datatype reason = ErrorObject string string | Thrown jsval

datatype 'a settled = Fulfilled 'a | RejectedWith reason

text \<open>
  \<^verbatim>\<open>`${e.message || e}`\<close>: the message of an Error object when it is not empty, else
  the Error object converted by \<^verbatim>\<open>Error.prototype.toString\<close>, which for an empty message
  is its name; for another value the property read and the conversion above.
\<close>

fun describe :: "platform \<Rightarrow> reason \<Rightarrow> error + string" where
  "describe P (ErrorObject name msg) = Inr (if msg \<noteq> [] then msg else name)"
| "describe P (Thrown v) = andThen (getProp v ''message'') (\<lambda>m. ToString P (orElse m v))"

definition tryOrNull :: "platform \<Rightarrow> 'a settled \<Rightarrow> string \<Rightarrow> error + 'a option" where
  "tryOrNull P promise label =
     (case promise of
        Fulfilled v \<Rightarrow> Inr (Some v)
      | RejectedWith e \<Rightarrow> andThen (describe P e) (\<lambda>line. Inr None))"

section \<open>Notions used to state the properties\<close>

text \<open>The value of a property where the read does not throw.\<close>

definition field :: "jsval \<Rightarrow> string \<Rightarrow> jsval" where
  "field v p = (case getProp v p of Inl e \<Rightarrow> JUndefined | Inr x \<Rightarrow> x)"

definition parameterOf :: "jsval \<Rightarrow> jsval" where
  "parameterOf row = field row ''PARAMETER''"

text \<open>The time value of the timestamp of a row; \<open>None\<close> when it is no valid time.\<close>

definition timeOf :: "platform \<Rightarrow> jsval \<Rightarrow> int option" where
  "timeOf P row = (case rowDate P row of Inl e \<Rightarrow> None | Inr t \<Rightarrow> t)"

text \<open>A value that is neither an array nor an object.\<close>

fun scalar :: "jsval \<Rightarrow> bool" where
  "scalar (JArr xs) = False"
| "scalar (JObj kvs) = False"
| "scalar v = True"

fun isObject :: "jsval \<Rightarrow> bool" where
  "isObject (JObj kvs) = True"
| "isObject v = False"

fun isArray :: "jsval \<Rightarrow> bool" where
  "isArray (JArr xs) = True"
| "isArray v = False"

text \<open>
  A row the loop can process without throwing: it is truthy, as every
  \<^verbatim>\<open>f.properties || {}\<close> is, and building the date of its \<^verbatim>\<open>DATE\<close> does not throw.
\<close>

definition datable :: "platform \<Rightarrow> jsval \<Rightarrow> bool" where
  "datable P row = (truthy row \<and> (case rowDate P row of Inl e \<Rightarrow> False | Inr t \<Rightarrow> True))"

text \<open>The key under which the loop files the row at a position, and one turn of the loop
  on rows that do not throw.\<close>

definition entryKey :: "nat \<times> jsval \<Rightarrow> mapkey" where
  "entryKey ir = mapKey (fst ir) (parameterOf (snd ir))"

definition keepStep ::
  "platform \<Rightarrow> (mapkey \<times> jsval) list \<Rightarrow> nat \<times> jsval \<Rightarrow> (mapkey \<times> jsval) list" where
  "keepStep P m ir =
     (case map_of m (entryKey ir) of
        None \<Rightarrow> AList.update (entryKey ir) (snd ir) m
      | Some prev \<Rightarrow>
          (if timeGreater (timeOf P (snd ir)) (timeOf P prev)
           then AList.update (entryKey ir) (snd ir) m else m))"

text \<open>
  A feature of a station or realtime collection: an object whose \<^verbatim>\<open>properties\<close> are
  absent or an object with scalar \<^verbatim>\<open>STATION_NUMBER\<close> and \<^verbatim>\<open>DATE\<close>. A feature
  collection: an object whose \<^verbatim>\<open>features\<close> are absent or an array of features.
\<close>

fun plainProperties :: "jsval \<Rightarrow> bool" where
  "plainProperties JUndefined = True"
| "plainProperties JNull = True"
| "plainProperties (JObj kvs) =
     (scalar (field (JObj kvs) ''STATION_NUMBER'') \<and> scalar (field (JObj kvs) ''DATE''))"
| "plainProperties v = False"

definition feature :: "jsval \<Rightarrow> bool" where
  "feature f = (isObject f \<and> plainProperties (field f ''properties''))"

definition featureCollection :: "jsval \<Rightarrow> bool" where
  "featureCollection j =
     (isObject j \<and>
      (case field j ''features'' of
         JUndefined \<Rightarrow> True
       | JArr fs \<Rightarrow> list_all feature fs
       | _ \<Rightarrow> False))"

text \<open>A row made from a feature: an object with scalar \<^verbatim>\<open>STATION_NUMBER\<close> and \<^verbatim>\<open>DATE\<close>.\<close>

definition plainRow :: "jsval \<Rightarrow> bool" where
  "plainRow row =
     (isObject row \<and> scalar (field row ''STATION_NUMBER'') \<and> scalar (field row ''DATE''))"

text \<open>The geometry the station lookup accepts: the feature and its geometry are truthy and
  the coordinates are an array.\<close>

definition usableGeometry :: "jsval \<Rightarrow> bool" where
  "usableGeometry f =
     (truthy f \<and> truthy (field f ''geometry'')
      \<and> isArray (field (field f ''geometry'') ''coordinates''))"

text \<open>The elements of an array value.\<close>

fun elements :: "jsval \<Rightarrow> jsval list" where
  "elements (JArr xs) = xs"
| "elements v = []"

text \<open>The body a request obtains when it succeeds: the response is there, its status is a
  success and its body reads as JSON.\<close>

fun obtained :: "fetched \<Rightarrow> jsval option" where
  "obtained Rejected = None"
| "obtained (Resolved r) = (if ok r then body r else None)"

text \<open>
  The station identifier of a feature as text, written from the words of the
  specification and not from the lookup: the \<^verbatim>\<open>STATION_NUMBER\<close> among the properties
  of the feature, coerced to a string as JavaScript writes a scalar; an identifier that
  is absent or falsy counts as the empty string.
\<close>

fun scalarText :: "platform \<Rightarrow> jsval \<Rightarrow> string" where
  "scalarText P (JStr s) = s"
| "scalarText P (JNum n) = numberToString P n"
| "scalarText P (JBool b) = (if b then ''true'' else ''false'')"
| "scalarText P JNull = ''null''"
| "scalarText P JUndefined = ''undefined''"
| "scalarText P v = []"

definition identifierOf :: "jsval \<Rightarrow> jsval" where
  "identifierOf x = field (field x ''properties'') ''STATION_NUMBER''"

definition identifierText :: "platform \<Rightarrow> jsval \<Rightarrow> string" where
  "identifierText P x = (if truthy (identifierOf x) then scalarText P (identifierOf x) else [])"

text \<open>A feature of a result set: an object whose station identifier is a scalar or absent.\<close>

definition identifiedFeature :: "jsval \<Rightarrow> bool" where
  "identifiedFeature x = (isObject x \<and> scalar (identifierOf x))"

text \<open>The first feature of a result set whose identifier, as text, is the requested one.\<close>

definition firstMatch :: "platform \<Rightarrow> string \<Rightarrow> jsval list \<Rightarrow> jsval option" where
  "firstMatch P stationNumber feats = List.find (\<lambda>x. identifierText P x = stationNumber) feats"

section \<open>Example data\<close>

text \<open>
  A platform to run the helpers on the examples of the specification: its
  \<^verbatim>\<open>Date.parse\<close> knows the three timestamps of the realtime example and takes every
  other string for unparsable, its numbers print as \<open>showNat\<close> prints naturals, and every
  string is a URL.
\<close>

definition testDateParse :: "string \<Rightarrow> int option" where
  "testDateParse s =
     (if s = ''2024-01-01T00:00:00Z'' then Some 1704067200000
      else if s = ''2024-01-01T00:30:00Z'' then Some 1704069000000
      else if s = ''2024-01-01T01:00:00Z'' then Some 1704070800000
      else None)"

definition testNumberToString :: "jsnum \<Rightarrow> string" where
  "testNumberToString n =
     (case n of
        Finite q \<Rightarrow> (if 0 \<le> q \<and> q = of_int \<lfloor>q\<rfloor> then showNat (nat \<lfloor>q\<rfloor>) else ''?'')
      | PlusInfinity \<Rightarrow> ''Infinity''
      | MinusInfinity \<Rightarrow> ''-Infinity'')"

definition testPlatform :: platform where
  "testPlatform =
     \<lparr>dateParse = testDateParse, numberToString = testNumberToString, urlParses = (\<lambda>s. True)\<rparr>"

text \<open>The realtime rows of the example: two levels an hour apart and one flow.\<close>

definition levelAt0 :: jsval where
  "levelAt0 = JObj [(''PARAMETER'', JStr ''Level''), (''VALUE'', JNum (Finite (6 / 5))),
                    (''DATE'', JStr ''2024-01-01T00:00:00Z'')]"

definition levelAt1 :: jsval where
  "levelAt1 = JObj [(''PARAMETER'', JStr ''Level''), (''VALUE'', JNum (Finite (3 / 2))),
                    (''DATE'', JStr ''2024-01-01T01:00:00Z'')]"

definition flowAt0 :: jsval where
  "flowAt0 = JObj [(''PARAMETER'', JStr ''Flow''), (''VALUE'', JNum (Finite 3)),
                   (''DATE'', JStr ''2024-01-01T00:30:00Z'')]"

text \<open>A level row whose timestamp does not parse, and a second level at the first hour.\<close>

definition levelUndated :: jsval where
  "levelUndated = JObj [(''PARAMETER'', JStr ''Level''), (''VALUE'', JNum (Finite 2)),
                        (''DATE'', JStr ''not a date'')]"

definition levelAt0Again :: jsval where
  "levelAt0Again = JObj [(''PARAMETER'', JStr ''Level''), (''VALUE'', JNum (Finite 9)),
                         (''DATE'', JStr ''2024-01-01T00:00:00Z'')]"

text \<open>A level row that has no timestamp at all.\<close>

definition levelNoDate :: jsval where
  "levelNoDate = JObj [(''PARAMETER'', JStr ''Level''), (''VALUE'', JNum (Finite 4))]"

text \<open>A row with no parameter, and a station feature for each of the stations A, B and C.\<close>

definition unnamedRow :: jsval where
  "unnamedRow = JObj [(''VALUE'', JNum (Finite 1)), (''DATE'', JStr ''2024-01-01T00:00:00Z'')]"

definition stationFeature :: "string \<Rightarrow> jsval list \<Rightarrow> jsval" where
  "stationFeature stationNumber coordinates =
     JObj [(''type'', JStr ''Feature''),
           (''geometry'', JObj [(''type'', JStr ''Point''), (''coordinates'', JArr coordinates)]),
           (''properties'', JObj [(''STATION_NUMBER'', JStr stationNumber)])]"

definition featureA :: jsval where
  "featureA = stationFeature ''A'' [JNum (Finite (-104)), JNum (Finite 50)]"

definition featureB :: jsval where
  "featureB = stationFeature ''B'' [JNum (Finite (-105)), JNum (Finite 51)]"

definition featureC :: jsval where
  "featureC = stationFeature ''C'' [JNum (Finite (-106)), JNum (Finite 52)]"

text \<open>A feature whose station identifier is the number zero.\<close>

definition featureZero :: jsval where
  "featureZero =
     JObj [(''type'', JStr ''Feature''),
           (''geometry'', JObj [(''type'', JStr ''Point''),
                                (''coordinates'', JArr [JNum (Finite (-107)), JNum (Finite 53)])]),
           (''properties'', JObj [(''STATION_NUMBER'', JNum (Finite 0))])]"

definition collection :: "jsval list \<Rightarrow> jsval" where
  "collection feats = JObj [(''type'', JStr ''FeatureCollection''), (''features'', JArr feats)]"

text \<open>Networks: one that answers every request with a status and a body, one that answers
  the filtered station request with one body and everything else with another.\<close>

definition answering :: "nat \<Rightarrow> jsval option \<Rightarrow> network" where
  "answering st b = (\<lambda>rq. Resolved (Response st b))"

definition failingPrimary :: "string \<Rightarrow> jsval \<Rightarrow> network" where
  "failingPrimary stationNumber fallbackBody =
     (\<lambda>rq. if searchParams rq = searchParams (stationsCqlRequest stationNumber)
              \<or> searchParams rq = searchParams (realtimeCqlRequest stationNumber)
           then Resolved (Response 400 None)
           else Resolved (Response 200 (Some fallbackBody)))"

section \<open>The loop on rows that do not throw\<close>

lemma getProp_truthy: "truthy v \<Longrightarrow> getProp v p = Inr (field v p)"
  by (cases v) (simp_all add: field_def)

lemma isLater_datable:
  "datable P a \<Longrightarrow> datable P b \<Longrightarrow> isLater P a b = Inr (timeGreater (timeOf P a) (timeOf P b))"
  by (auto simp: datable_def isLater_def timeOf_def andThen_def split: sum.splits)

lemma set_update_subset: "set (AList.update k v m) \<subseteq> insert (k, v) (set m)"
  by (induction m) auto

lemma keepStep_rows:
  "(k, r) \<in> set (keepStep P m ir) \<Longrightarrow> (k, r) \<in> set m \<or> (k = entryKey ir \<and> r = snd ir)"
  using set_update_subset [of "entryKey ir" "snd ir" m]
  by (auto simp: keepStep_def split: option.splits if_splits)

lemma keepLatest_step:
  assumes "\<forall>(k, r) \<in> set m. datable P r" and "datable P row"
  shows "keepLatest P m ((i, row) # rest) = keepLatest P (keepStep P m (i, row)) rest"
proof (cases "map_of m (entryKey (i, row))")
  case None
  then show ?thesis
    using assms(2)
    by (simp add: getProp_truthy datable_def andThen_def mapGet_def keepStep_def entryKey_def parameterOf_def)
next
  case (Some prev)
  then have "(entryKey (i, row), prev) \<in> set m"
    by (rule map_of_SomeD)
  with assms(1) have p: "datable P prev" by auto
  then have "truthy prev" by (simp add: datable_def)
  with Some p assms(2) show ?thesis
    by (simp add: getProp_truthy datable_def[of P row] andThen_def mapGet_def keepStep_def
        entryKey_def parameterOf_def isLater_datable)
qed

lemma keepStep_datable:
  "\<forall>(k, r) \<in> set m. datable P r \<Longrightarrow> datable P (snd ir) \<Longrightarrow> \<forall>(k, r) \<in> set (keepStep P m ir). datable P r"
  using keepStep_rows [of _ _ P m ir] by fastforce

lemma keepLatest_foldl:
  "\<forall>(k, r) \<in> set m. datable P r \<Longrightarrow> \<forall>ir \<in> set irs. datable P (snd ir) \<Longrightarrow>
   keepLatest P m irs = Inr (foldl (keepStep P) m irs)"
proof (induction irs arbitrary: m)
  case Nil
  then show ?case by simp
next
  case (Cons ir irs)
  obtain i row where ir: "ir = (i, row)" by (cases ir)
  have d: "datable P row" using Cons.prems(2) ir by simp
  have "\<forall>(k, r) \<in> set (keepStep P m ir). datable P r"
    using keepStep_datable [OF Cons.prems(1), of ir] d ir by simp
  then have "keepLatest P (keepStep P m ir) irs = Inr (foldl (keepStep P) (keepStep P m ir) irs)"
    using Cons.IH Cons.prems(2) by simp
  then show ?case
    using keepLatest_step [OF Cons.prems(1) d, of i irs] ir by simp
qed

subsection \<open>What the turns of the loop keep\<close>

lemma keepStep_keys: "fst ` set (keepStep P m ir) = insert (entryKey ir) (fst ` set m)"
  by (auto simp: keepStep_def dom_update map_of_eq_None_iff split: option.splits dest: map_of_SomeD)
    (metis fst_conv image_eqI map_of_SomeD)+

lemma keepStep_distinct: "distinct (map fst m) \<Longrightarrow> distinct (map fst (keepStep P m ir))"
  by (simp add: keepStep_def distinct_update split: option.splits)

lemma fold_keys: "fst ` set (foldl (keepStep P) m irs) = fst ` set m \<union> entryKey ` set irs"
  by (induction irs arbitrary: m) (auto simp: keepStep_keys)

lemma fold_distinct: "distinct (map fst m) \<Longrightarrow> distinct (map fst (foldl (keepStep P) m irs))"
  by (induction irs arbitrary: m) (auto simp: keepStep_distinct)

lemma fold_rows:
  "(k, r) \<in> set (foldl (keepStep P) m irs) \<Longrightarrow>
   (k, r) \<in> set m \<or> (\<exists>ir \<in> set irs. k = entryKey ir \<and> r = snd ir)"
proof (induction irs arbitrary: m)
  case Nil
  then show ?case by simp
next
  case (Cons ir irs)
  from Cons.IH [of "keepStep P m ir"] Cons.prems
  have "(k, r) \<in> set (keepStep P m ir) \<or> (\<exists>ir \<in> set irs. k = entryKey ir \<and> r = snd ir)"
    by simp
  then show ?case
    using keepStep_rows [of k r P m ir] by auto
qed


subsection \<open>The kept row is the latest of its key\<close>

lemma timeGreater_irrefl: "\<not> timeGreater t t"
  by (cases t) simp_all

lemma timeGreater_trans: "timeGreater a b \<Longrightarrow> timeGreater b c \<Longrightarrow> timeGreater a c"
  by (cases a; cases b; cases c) simp_all

lemma timeGreater_cotrans: "timeGreater c b \<Longrightarrow> \<not> timeGreater a b \<Longrightarrow> \<not> timeGreater a c"
  by (cases a; cases b; cases c) simp_all

lemma update_same_mem: "(k, v) \<in> set (AList.update k v m)"
  by (induction m) auto

lemma update_other_mem: "k' \<noteq> k \<Longrightarrow> (k', x) \<in> set m \<Longrightarrow> (k', x) \<in> set (AList.update k v m)"
  by (induction m) auto

lemma keepStep_other:
  "k \<noteq> entryKey ir \<Longrightarrow> (k, r0) \<in> set m \<Longrightarrow> (k, r0) \<in> set (keepStep P m ir)"
  by (simp add: keepStep_def update_other_mem split: option.splits)

lemma entry_unique:
  assumes "distinct (map fst m)" and "map_of m k = Some prev"
  shows "(k, r0) \<in> set m \<Longrightarrow> r0 = prev"
  using eq_key_imp_eq_value [OF assms(1) _ map_of_SomeD [OF assms(2)]] by simp

lemma keepStep_same_new:
  assumes "map_of m (entryKey ir) = None"
  shows "\<exists>r1. (entryKey ir, r1) \<in> set (keepStep P m ir)
           \<and> \<not> timeGreater (timeOf P (snd ir)) (timeOf P r1)
           \<and> (\<forall>r0. (entryKey ir, r0) \<in> set m \<longrightarrow>
                 r1 = r0 \<or> timeGreater (timeOf P r1) (timeOf P r0))"
proof -
  have none: "(entryKey ir, r0) \<notin> set m" for r0
    using assms by (force simp: map_of_eq_None_iff)
  have "keepStep P m ir = AList.update (entryKey ir) (snd ir) m"
    using assms by (simp add: keepStep_def)
  then have "(entryKey ir, snd ir) \<in> set (keepStep P m ir)"
    by (simp add: update_same_mem)
  moreover have "\<not> timeGreater (timeOf P (snd ir)) (timeOf P (snd ir))"
    by (rule timeGreater_irrefl)
  moreover have "\<forall>r0. (entryKey ir, r0) \<in> set m \<longrightarrow>
      snd ir = r0 \<or> timeGreater (timeOf P (snd ir)) (timeOf P r0)"
    using none by simp
  ultimately show ?thesis by (intro exI [of _ "snd ir"] conjI)
qed

lemma keepStep_same_replace:
  assumes "distinct (map fst m)" and prev: "map_of m (entryKey ir) = Some prev"
    and later: "timeGreater (timeOf P (snd ir)) (timeOf P prev)"
  shows "\<exists>r1. (entryKey ir, r1) \<in> set (keepStep P m ir)
           \<and> \<not> timeGreater (timeOf P (snd ir)) (timeOf P r1)
           \<and> (\<forall>r0. (entryKey ir, r0) \<in> set m \<longrightarrow>
                 r1 = r0 \<or> timeGreater (timeOf P r1) (timeOf P r0))"
proof -
  have "keepStep P m ir = AList.update (entryKey ir) (snd ir) m"
    using prev later by (simp add: keepStep_def)
  then have "(entryKey ir, snd ir) \<in> set (keepStep P m ir)"
    by (simp add: update_same_mem)
  moreover have "\<not> timeGreater (timeOf P (snd ir)) (timeOf P (snd ir))"
    by (rule timeGreater_irrefl)
  moreover have "\<forall>r0. (entryKey ir, r0) \<in> set m \<longrightarrow>
      snd ir = r0 \<or> timeGreater (timeOf P (snd ir)) (timeOf P r0)"
    using entry_unique [OF assms(1) prev] later by auto
  ultimately show ?thesis by (intro exI [of _ "snd ir"] conjI)
qed

lemma keepStep_same_keep:
  assumes "distinct (map fst m)" and prev: "map_of m (entryKey ir) = Some prev"
    and notLater: "\<not> timeGreater (timeOf P (snd ir)) (timeOf P prev)"
  shows "\<exists>r1. (entryKey ir, r1) \<in> set (keepStep P m ir)
           \<and> \<not> timeGreater (timeOf P (snd ir)) (timeOf P r1)
           \<and> (\<forall>r0. (entryKey ir, r0) \<in> set m \<longrightarrow>
                 r1 = r0 \<or> timeGreater (timeOf P r1) (timeOf P r0))"
proof -
  have "keepStep P m ir = m"
    using prev notLater by (simp add: keepStep_def)
  then have "(entryKey ir, prev) \<in> set (keepStep P m ir)"
    using map_of_SomeD [OF prev] by simp
  moreover have "\<forall>r0. (entryKey ir, r0) \<in> set m \<longrightarrow>
      prev = r0 \<or> timeGreater (timeOf P prev) (timeOf P r0)"
    using entry_unique [OF assms(1) prev] by auto
  ultimately show ?thesis using notLater by (intro exI [of _ prev] conjI)
qed

lemma keepStep_same:
  assumes "distinct (map fst m)"
  shows "\<exists>r1. (entryKey ir, r1) \<in> set (keepStep P m ir)
           \<and> \<not> timeGreater (timeOf P (snd ir)) (timeOf P r1)
           \<and> (\<forall>r0. (entryKey ir, r0) \<in> set m \<longrightarrow>
                 r1 = r0 \<or> timeGreater (timeOf P r1) (timeOf P r0))"
proof (cases "map_of m (entryKey ir)")
  case None
  then show ?thesis by (rule keepStep_same_new)
next
  case (Some prev)
  show ?thesis
    using keepStep_same_replace [OF assms Some] keepStep_same_keep [OF assms Some]
    by (cases "timeGreater (timeOf P (snd ir)) (timeOf P prev)") blast+
qed

lemma fold_latest:
  "distinct (map fst m) \<Longrightarrow> (k, r) \<in> set (foldl (keepStep P) m irs) \<Longrightarrow>
   (\<forall>r0. (k, r0) \<in> set m \<longrightarrow> r = r0 \<or> timeGreater (timeOf P r) (timeOf P r0))
   \<and> (\<forall>ir \<in> set irs. entryKey ir = k \<longrightarrow> \<not> timeGreater (timeOf P (snd ir)) (timeOf P r))"
proof (induction irs arbitrary: m)
  case Nil
  have "r = r0" if "(k, r0) \<in> set m" for r0
    using eq_key_imp_eq_value [OF Nil(1) _ that, of r] Nil(2) by simp
  then show ?case by simp
next
  case (Cons ir irs)
  let ?m1 = "keepStep P m ir"
  have d1: "distinct (map fst ?m1)"
    using Cons.prems(1) by (rule keepStep_distinct)
  have mem: "(k, r) \<in> set (foldl (keepStep P) ?m1 irs)"
    using Cons.prems(2) by simp
  have IH1: "(k, r1) \<in> set ?m1 \<Longrightarrow> r = r1 \<or> timeGreater (timeOf P r) (timeOf P r1)" for r1
    using Cons.IH [OF d1 mem] by simp
  have IH2: "ir' \<in> set irs \<Longrightarrow> entryKey ir' = k \<Longrightarrow>
      \<not> timeGreater (timeOf P (snd ir')) (timeOf P r)" for ir'
    using Cons.IH [OF d1 mem] by simp
  obtain r1 where r1: "(entryKey ir, r1) \<in> set ?m1"
      "\<not> timeGreater (timeOf P (snd ir)) (timeOf P r1)"
      "\<forall>r0. (entryKey ir, r0) \<in> set m \<longrightarrow> r1 = r0 \<or> timeGreater (timeOf P r1) (timeOf P r0)"
    using keepStep_same [OF Cons.prems(1), of ir P] by (elim exE conjE)
  have a: "r = r0 \<or> timeGreater (timeOf P r) (timeOf P r0)" if r0: "(k, r0) \<in> set m" for r0
  proof (cases "k = entryKey ir")
    case False
    then have "(k, r0) \<in> set ?m1" using r0 by (rule keepStep_other)
    then show ?thesis by (rule IH1)
  next
    case True
    have x: "r = r1 \<or> timeGreater (timeOf P r) (timeOf P r1)"
      using IH1 [of r1] r1(1) True by simp
    have y: "r1 = r0 \<or> timeGreater (timeOf P r1) (timeOf P r0)"
      using r1(3) r0 True by simp
    from x y show ?thesis
      using timeGreater_trans [of "timeOf P r" "timeOf P r1" "timeOf P r0"] by auto
  qed
  have b: "\<not> timeGreater (timeOf P (snd ir)) (timeOf P r)" if "entryKey ir = k"
  proof -
    have "r = r1 \<or> timeGreater (timeOf P r) (timeOf P r1)"
      using IH1 [of r1] r1(1) that by simp
    then show ?thesis
      using r1(2) timeGreater_cotrans [of "timeOf P r" "timeOf P r1" "timeOf P (snd ir)"] by auto
  qed
  show ?case
  proof (intro conjI allI impI ballI)
    fix r0 assume "(k, r0) \<in> set m"
    then show "r = r0 \<or> timeGreater (timeOf P r) (timeOf P r0)" by (rule a)
  next
    fix ir' assume "ir' \<in> set (ir # irs)" and k: "entryKey ir' = k"
    then consider "ir' = ir" | "ir' \<in> set irs" by auto
    then show "\<not> timeGreater (timeOf P (snd ir')) (timeOf P r)"
    proof cases
      case 1
      with k b show ?thesis by simp
    next
      case 2
      then show ?thesis using k by (rule IH2)
    qed
  qed
qed


subsection \<open>The whole pass\<close>

lemma mostRecent_fold:
  assumes "\<forall>r \<in> set rows. datable P r"
  shows "mostRecentPerParameter P rows = Inr (map snd (foldl (keepStep P) [] (enumerate 0 rows)))"
proof -
  have "\<forall>ir \<in> set (enumerate 0 rows). datable P (snd ir)"
    using assms by (auto simp: in_set_enumerate_eq)
  then have "keepLatest P [] (enumerate 0 rows) = Inr (foldl (keepStep P) [] (enumerate 0 rows))"
    by (intro keepLatest_foldl) simp_all
  then show ?thesis
    by (simp add: mostRecentPerParameter_def andThen_def)
qed

lemma enumerate_rows: "snd ` set (enumerate 0 rows) = set rows"
  by (metis list.set_map map_snd_enumerate)

lemma mapKey_scalar: "scalar v \<Longrightarrow> mapKey i v = ByValue v"
  by (cases v) simp_all

lemma mapKey_undefined: "mapKey i v = ByValue JUndefined \<longleftrightarrow> v = JUndefined"
  by (cases v) simp_all

lemma pass_entries:
  assumes "(k, r) \<in> set (foldl (keepStep P) [] (enumerate 0 rows))"
  shows "r \<in> set rows \<and> (\<exists>i. k = mapKey i (parameterOf r))"
proof -
  from fold_rows [OF assms] obtain ir where ir: "ir \<in> set (enumerate 0 rows)"
    and k: "k = entryKey ir" and r: "r = snd ir" by auto
  from ir r have "r \<in> set rows"
    using enumerate_rows [of rows] by (metis imageI)
  with k r show ?thesis by (auto simp: entryKey_def)
qed

lemma pass_keys:
  "fst ` set (foldl (keepStep P) [] (enumerate 0 rows)) = entryKey ` set (enumerate 0 rows)"
  using fold_keys [of P "[]" "enumerate 0 rows"] by simp

lemma pass_distinct: "distinct (map fst (foldl (keepStep P) [] (enumerate 0 rows)))"
  by (rule fold_distinct) simp

lemma pass_latest:
  assumes "(k, r) \<in> set (foldl (keepStep P) [] (enumerate 0 rows))"
    and "(i, r') \<in> set (enumerate 0 rows)" and "entryKey (i, r') = k"
  shows "\<not> timeGreater (timeOf P r') (timeOf P r)"
  using fold_latest [of "[]" k r P "enumerate 0 rows"] assms by auto


lemma rows_enumerated: "r \<in> set rows \<Longrightarrow> \<exists>i. (i, r) \<in> set (enumerate 0 rows)"
  using enumerate_rows [of rows] by force

text \<open>
  The claim C1 as it is written fails: the first row of a key has no timestamp, two rows
  of the same key with valid timestamps follow, and the pass returns the row without a
  timestamp, whose time is not greater than or equal to theirs.
\<close>

theorem undated_row_is_returned_before_dated_rows:
  "parameterOf levelNoDate = parameterOf levelAt0
   \<and> parameterOf levelNoDate = parameterOf levelAt1
   \<and> timeOf testPlatform levelNoDate = None
   \<and> timeOf testPlatform levelAt0 = Some 1704067200000
   \<and> timeOf testPlatform levelAt1 = Some 1704070800000
   \<and> mostRecentPerParameter testPlatform [levelNoDate, levelAt0, levelAt1] = Inr [levelNoDate]"
  by (simp add: mostRecentPerParameter_def enumerate_eq_zip andThen_def mapGet_def isLater_def
      rowDate_def timeOf_def parameterOf_def field_def levelNoDate_def levelAt0_def levelAt1_def
      testPlatform_def testDateParse_def)

text \<open>
  Claim C1, amended. For rows with a scalar or absent parameter key whose dates can be
  built, the deduplication pass returns, without throwing, exactly one row per distinct
  parameter key of the input: the keys of the returned rows are pairwise distinct and are
  the keys of the input. Every returned row is an input row; no input row with the same
  key compares as later than it; and wherever its timestamp and that of an input row
  with the same key are both valid times, its timestamp is greater than or equal to the
  other. So for an input whose timestamps are all valid the returned row of a key is
  the latest of the key.
\<close>

theorem mostRecentPerParameter_one_row_per_key_latest_of_valid:
  assumes rows: "\<forall>r \<in> set rows. datable P r \<and> scalar (parameterOf r)"
  shows "\<exists>out. mostRecentPerParameter P rows = Inr out
           \<and> distinct (map parameterOf out)
           \<and> set (map parameterOf out) = set (map parameterOf rows)
           \<and> (\<forall>r \<in> set out. r \<in> set rows
                \<and> (\<forall>r' \<in> set rows. parameterOf r' = parameterOf r \<longrightarrow>
                      \<not> timeGreater (timeOf P r') (timeOf P r)
                      \<and> (timeOf P r \<noteq> None \<and> timeOf P r' \<noteq> None \<longrightarrow>
                          (\<exists>t t'. timeOf P r = Some t \<and> timeOf P r' = Some t' \<and> t' \<le> t))))"
proof -
  let ?m = "foldl (keepStep P) [] (enumerate 0 rows)"
  let ?out = "map snd ?m"
  have ret: "mostRecentPerParameter P rows = Inr ?out"
    using rows by (intro mostRecent_fold) simp
  have key: "k = ByValue (parameterOf r) \<and> r \<in> set rows" if "(k, r) \<in> set ?m" for k r
  proof -
    from pass_entries [OF that] obtain i where r: "r \<in> set rows" and k: "k = mapKey i (parameterOf r)"
      by auto
    from r rows have "scalar (parameterOf r)" by simp
    with k r show ?thesis by (simp add: mapKey_scalar)
  qed
  have inkey: "entryKey (i, r) = ByValue (parameterOf r)" if "r \<in> set rows" for i r
    using that rows by (simp add: entryKey_def mapKey_scalar)
  have fst_eq: "map fst ?m = map ByValue (map parameterOf ?out)"
    using key by (auto simp: comp_def)
  have "distinct (map ByValue (map parameterOf ?out))"
    using pass_distinct [of P rows] fst_eq by simp
  then have d: "distinct (map parameterOf ?out)"
    using distinct_map [of ByValue "map parameterOf ?out"] by blast
  have "ByValue ` set (map parameterOf ?out) = fst ` set ?m"
    using fst_eq by (metis list.set_map)
  also have "\<dots> = entryKey ` set (enumerate 0 rows)"
    by (rule pass_keys)
  also have "\<dots> = ByValue ` set (map parameterOf rows)"
  proof -
    have "entryKey ir = ByValue (parameterOf (snd ir))" if "ir \<in> set (enumerate 0 rows)" for ir
      using that inkey [of "snd ir" "fst ir"] enumerate_rows [of rows] by force
    then have "entryKey ` set (enumerate 0 rows) = (\<lambda>ir. ByValue (parameterOf (snd ir))) ` set (enumerate 0 rows)"
      by (intro image_cong) simp_all
    also have "\<dots> = ByValue ` parameterOf ` snd ` set (enumerate 0 rows)"
      by (simp add: image_image)
    finally show ?thesis by (simp add: enumerate_rows)
  qed
  finally have s: "set (map parameterOf ?out) = set (map parameterOf rows)"
    by (simp add: inj_image_eq_iff inj_def)
  have l: "r \<in> set rows \<and> (\<forall>r' \<in> set rows. parameterOf r' = parameterOf r \<longrightarrow>
              \<not> timeGreater (timeOf P r') (timeOf P r)
              \<and> (timeOf P r \<noteq> None \<and> timeOf P r' \<noteq> None \<longrightarrow>
                  (\<exists>t t'. timeOf P r = Some t \<and> timeOf P r' = Some t' \<and> t' \<le> t)))"
    if "r \<in> set ?out" for r
  proof -
    from that obtain k where kr: "(k, r) \<in> set ?m" by auto
    note kr' = key [OF kr]
    have "\<not> timeGreater (timeOf P r') (timeOf P r)
        \<and> (timeOf P r \<noteq> None \<and> timeOf P r' \<noteq> None \<longrightarrow>
            (\<exists>t t'. timeOf P r = Some t \<and> timeOf P r' = Some t' \<and> t' \<le> t))"
      if r': "r' \<in> set rows" and same: "parameterOf r' = parameterOf r" for r'
    proof -
      from rows_enumerated [OF r'] obtain i where i: "(i, r') \<in> set (enumerate 0 rows)" ..
      have "entryKey (i, r') = k" using inkey [OF r'] same kr' by simp
      from pass_latest [OF kr i this] have n: "\<not> timeGreater (timeOf P r') (timeOf P r)" .
      then show ?thesis by (cases "timeOf P r"; cases "timeOf P r'") simp_all
    qed
    with kr' show ?thesis by simp
  qed
  from ret d s l show ?thesis by blast
qed

theorem mostRecentPerParameter_one_row_per_key_latest_of_valid_witness:
  "datable testPlatform levelAt0 \<and> datable testPlatform levelAt1 \<and> datable testPlatform flowAt0
   \<and> scalar (parameterOf levelAt0) \<and> scalar (parameterOf levelAt1) \<and> scalar (parameterOf flowAt0)
   \<and> timeOf testPlatform levelAt0 = Some 1704067200000
   \<and> timeOf testPlatform levelAt1 = Some 1704070800000
   \<and> (\<exists>out. mostRecentPerParameter testPlatform [levelAt0, levelAt1, flowAt0] = Inr out
          \<and> distinct (map parameterOf out)
          \<and> set (map parameterOf out) = {JStr ''Level'', JStr ''Flow''}
          \<and> levelAt0 \<notin> set out)"
proof -
  have a: "datable testPlatform levelAt0" "datable testPlatform levelAt1"
      "datable testPlatform flowAt0"
    by (simp_all add: datable_def rowDate_def andThen_def levelAt0_def levelAt1_def flowAt0_def)
  have p: "map parameterOf [levelAt0, levelAt1, flowAt0] = [JStr ''Level'', JStr ''Level'', JStr ''Flow'']"
    by (simp add: parameterOf_def field_def levelAt0_def levelAt1_def flowAt0_def)
  then have b: "scalar (parameterOf levelAt0)" "scalar (parameterOf levelAt1)"
      "scalar (parameterOf flowAt0)"
    by simp_all
  have h: "\<forall>r \<in> set [levelAt0, levelAt1, flowAt0]. datable testPlatform r \<and> scalar (parameterOf r)"
    using a b by simp
  have t: "timeOf testPlatform levelAt0 = Some 1704067200000"
      "timeOf testPlatform levelAt1 = Some 1704070800000"
    by (simp_all add: timeOf_def rowDate_def andThen_def levelAt0_def levelAt1_def
        testPlatform_def testDateParse_def)
  from mostRecentPerParameter_one_row_per_key_latest_of_valid [OF h] obtain out where out:
      "mostRecentPerParameter testPlatform [levelAt0, levelAt1, flowAt0] = Inr out"
      "distinct (map parameterOf out)"
      "set (map parameterOf out) = set (map parameterOf [levelAt0, levelAt1, flowAt0])"
      "\<forall>r \<in> set out. r \<in> set [levelAt0, levelAt1, flowAt0]
         \<and> (\<forall>r' \<in> set [levelAt0, levelAt1, flowAt0]. parameterOf r' = parameterOf r \<longrightarrow>
               \<not> timeGreater (timeOf testPlatform r') (timeOf testPlatform r)
               \<and> (timeOf testPlatform r \<noteq> None \<and> timeOf testPlatform r' \<noteq> None \<longrightarrow>
                   (\<exists>t t'. timeOf testPlatform r = Some t \<and> timeOf testPlatform r' = Some t'
                      \<and> t' \<le> t)))"
    by blast
  have "levelAt0 \<notin> set out"
  proof
    assume "levelAt0 \<in> set out"
    with out(4) have "\<forall>r' \<in> set [levelAt0, levelAt1, flowAt0]. parameterOf r' = parameterOf levelAt0 \<longrightarrow>
        \<not> timeGreater (timeOf testPlatform r') (timeOf testPlatform levelAt0)"
      by blast
    then have "\<not> timeGreater (timeOf testPlatform levelAt1) (timeOf testPlatform levelAt0)"
      using p by simp
    with t show False by simp
  qed
  moreover have "set (map parameterOf out) = {JStr ''Level'', JStr ''Flow''}"
    using out(3) p by simp
  ultimately show ?thesis using a b t out(1,2) by blast
qed

text \<open>
  Claim C6. When the loop reaches a row whose key already holds a row with an equal parsed
  timestamp, the map is left as it is: the row folded first stays, the later row is
  discarded.
\<close>

theorem keepLatest_tie_keeps_first:
  assumes "datable P row" and "datable P prev"
    and "map_of byParam (entryKey (i, row)) = Some prev"
    and "timeOf P row = timeOf P prev"
  shows "keepLatest P byParam ((i, row) # rest) = keepLatest P byParam rest"
proof -
  have "truthy row" "truthy prev"
    using assms(1,2) by (simp_all add: datable_def)
  moreover have "isLater P row prev = Inr False"
    using isLater_datable [OF assms(1,2)] assms(4) by (simp add: timeGreater_irrefl)
  ultimately show ?thesis
    using assms(3)
    by (simp add: getProp_truthy andThen_def mapGet_def entryKey_def parameterOf_def)
qed

theorem keepLatest_tie_keeps_first_witness:
  "datable testPlatform levelAt0Again \<and> datable testPlatform levelAt0
   \<and> timeOf testPlatform levelAt0Again = timeOf testPlatform levelAt0
   \<and> keepLatest testPlatform [(ByValue (JStr ''Level''), levelAt0)] [(1, levelAt0Again)]
       = Inr [(ByValue (JStr ''Level''), levelAt0)]
   \<and> mostRecentPerParameter testPlatform [levelAt0, levelAt0Again] = Inr [levelAt0]"
proof -
  have a: "datable testPlatform levelAt0Again"
    by (simp add: datable_def rowDate_def andThen_def levelAt0Again_def)
  have b: "datable testPlatform levelAt0"
    by (simp add: datable_def rowDate_def andThen_def levelAt0_def)
  have c: "map_of [(ByValue (JStr ''Level''), levelAt0)] (entryKey (1, levelAt0Again)) = Some levelAt0"
    by (simp add: entryKey_def parameterOf_def field_def levelAt0Again_def)
  have d: "timeOf testPlatform levelAt0Again = timeOf testPlatform levelAt0"
    by (simp add: timeOf_def rowDate_def andThen_def levelAt0_def levelAt0Again_def
        testPlatform_def testDateParse_def)
  have e: "keepLatest testPlatform [(ByValue (JStr ''Level''), levelAt0)] [(1, levelAt0Again)]
       = Inr [(ByValue (JStr ''Level''), levelAt0)]"
    using keepLatest_tie_keeps_first [OF a b c d, of "[]"] by simp
  have f: "mostRecentPerParameter testPlatform [levelAt0, levelAt0Again] = Inr [levelAt0]"
    by (simp add: mostRecentPerParameter_def enumerate_eq_zip andThen_def mapGet_def isLater_def
        rowDate_def levelAt0_def levelAt0Again_def testPlatform_def testDateParse_def)
  from a b d e f show ?thesis by simp
qed


subsection \<open>Rows without a parameter\<close>

lemma count_key:
  "distinct ks \<Longrightarrow> length (filter (\<lambda>k. k = K) ks) = (if K \<in> set ks then 1 else 0)"
  by (induction ks) auto

text \<open>
  Claim C10. On rows the loop can process, the pass returns rows of its input only, and the
  input rows that lack a \<^verbatim>\<open>PARAMETER\<close> are collapsed into one returned entry: the
  result holds exactly one row without a parameter when the input holds any, and none
  otherwise.
\<close>

theorem mostRecentPerParameter_rows_of_input:
  assumes "\<forall>r \<in> set rows. datable P r"
  shows "\<exists>out. mostRecentPerParameter P rows = Inr out
           \<and> set out \<subseteq> set rows
           \<and> length (filter (\<lambda>r. parameterOf r = JUndefined) out)
               = (if \<exists>r \<in> set rows. parameterOf r = JUndefined then 1 else 0)"
proof -
  let ?m = "foldl (keepStep P) [] (enumerate 0 rows)"
  let ?K = "ByValue JUndefined"
  have ret: "mostRecentPerParameter P rows = Inr (map snd ?m)"
    using assms by (rule mostRecent_fold)
  have sub: "set (map snd ?m) \<subseteq> set rows"
    using pass_entries [of _ _ P rows] by auto
  have same: "(parameterOf (snd kr) = JUndefined) = (fst kr = ?K)" if "kr \<in> set ?m" for kr
  proof -
    from that have "(fst kr, snd kr) \<in> set ?m" by simp
    from pass_entries [OF this] obtain i where "fst kr = mapKey i (parameterOf (snd kr))"
      by auto
    then show ?thesis by (simp add: mapKey_undefined)
  qed
  have "filter (\<lambda>r. parameterOf r = JUndefined) (map snd ?m)
      = map snd (filter (\<lambda>kr. parameterOf (snd kr) = JUndefined) ?m)"
    by (simp add: filter_map comp_def)
  also have "filter (\<lambda>kr. parameterOf (snd kr) = JUndefined) ?m = filter (\<lambda>kr. fst kr = ?K) ?m"
    using same by (intro filter_cong) simp_all
  finally have "length (filter (\<lambda>r. parameterOf r = JUndefined) (map snd ?m))
      = length (filter (\<lambda>k. k = ?K) (map fst ?m))"
    by (simp add: filter_map comp_def)
  also have "\<dots> = (if ?K \<in> set (map fst ?m) then 1 else 0)"
    using pass_distinct [of P rows] by (rule count_key)
  also have "?K \<in> set (map fst ?m) \<longleftrightarrow> (\<exists>r \<in> set rows. parameterOf r = JUndefined)"
  proof -
    have "?K \<in> set (map fst ?m) \<longleftrightarrow> ?K \<in> entryKey ` set (enumerate 0 rows)"
      using pass_keys [of P rows] by simp
    also have "\<dots> \<longleftrightarrow> (\<exists>ir \<in> set (enumerate 0 rows). parameterOf (snd ir) = JUndefined)"
    proof -
      have "(?K = entryKey ir) = (parameterOf (snd ir) = JUndefined)" for ir
        using mapKey_undefined [of "fst ir" "parameterOf (snd ir)"] by (auto simp: entryKey_def)
      then show ?thesis unfolding image_iff by simp
    qed
    also have "\<dots> \<longleftrightarrow> (\<exists>r \<in> snd ` set (enumerate 0 rows). parameterOf r = JUndefined)"
      by simp
    finally show ?thesis by (simp add: enumerate_rows)
  qed
  finally show ?thesis using ret sub by simp
qed

theorem mostRecentPerParameter_rows_of_input_witness:
  "datable testPlatform unnamedRow \<and> datable testPlatform levelAt0
   \<and> datable testPlatform (JObj [])
   \<and> (\<exists>out. mostRecentPerParameter testPlatform [unnamedRow, levelAt0, JObj []] = Inr out
          \<and> set out \<subseteq> {unnamedRow, levelAt0, JObj []}
          \<and> length (filter (\<lambda>r. parameterOf r = JUndefined) out) = 1)"
proof -
  have a: "datable testPlatform unnamedRow"
    by (simp add: datable_def rowDate_def andThen_def unnamedRow_def)
  have b: "datable testPlatform levelAt0"
    by (simp add: datable_def rowDate_def andThen_def levelAt0_def)
  have c: "datable testPlatform (JObj [])"
    by (simp add: datable_def rowDate_def andThen_def)
  have h: "\<forall>r \<in> set [unnamedRow, levelAt0, JObj []]. datable testPlatform r"
    using a b c by simp
  have u: "parameterOf unnamedRow = JUndefined"
    by (simp add: parameterOf_def field_def unnamedRow_def)
  from mostRecentPerParameter_rows_of_input [OF h] u a b c show ?thesis
    by auto
qed


subsection \<open>Timestamps that are no valid time\<close>

lemma newDate_scalar: "scalar v \<Longrightarrow> \<exists>t. newDate P v = Inr t"
  by (cases v) simp_all

lemma datable_scalar: "truthy row \<Longrightarrow> scalar (field row ''DATE'') \<Longrightarrow> datable P row"
  using newDate_scalar [of "field row ''DATE''" P]
  by (auto simp: datable_def rowDate_def getProp_truthy andThen_def)

text \<open>
  The claim C3 as it is written fails: the row kept for a key has a timestamp that does not
  parse, a row of the same key with a valid timestamp follows, and the pass returns the
  row kept first.
\<close>

theorem valid_row_does_not_replace_undated_row:
  "timeOf testPlatform levelUndated = None
   \<and> timeOf testPlatform levelAt0 = Some 1704067200000
   \<and> parameterOf levelUndated = parameterOf levelAt0
   \<and> mostRecentPerParameter testPlatform [levelUndated, levelAt0] = Inr [levelUndated]"
  by (simp add: mostRecentPerParameter_def enumerate_eq_zip andThen_def mapGet_def isLater_def
      rowDate_def timeOf_def parameterOf_def field_def levelUndated_def levelAt0_def
      testPlatform_def testDateParse_def)

text \<open>
  Claim C3, amended. The comparison of the loop never throws on timestamps that are strings
  (or any other scalar, or absent), and a row whose timestamp is no valid time never
  compares as later: where its key already holds a row, the map is left as it is.
\<close>

theorem isLater_total_and_false_for_invalid:
  assumes "truthy row" and "truthy prev"
    and "scalar (field row ''DATE'')" and "scalar (field prev ''DATE'')"
  shows "(\<exists>later. isLater P row prev = Inr later \<and> (timeOf P row = None \<longrightarrow> \<not> later))
         \<and> (timeOf P row = None \<longrightarrow> map_of byParam (entryKey (i, row)) = Some prev \<longrightarrow>
              keepLatest P byParam ((i, row) # rest) = keepLatest P byParam rest)"
proof -
  have d: "datable P row" "datable P prev"
    using assms by (simp_all add: datable_scalar)
  have l: "isLater P row prev = Inr (timeGreater (timeOf P row) (timeOf P prev))"
    using d by (rule isLater_datable)
  have "keepLatest P byParam ((i, row) # rest) = keepLatest P byParam rest"
    if "timeOf P row = None" and "map_of byParam (entryKey (i, row)) = Some prev"
    using that l assms(1,2)
    by (simp add: getProp_truthy andThen_def mapGet_def entryKey_def parameterOf_def)
  with l show ?thesis by auto
qed

theorem isLater_total_and_false_for_invalid_witness:
  "truthy levelUndated \<and> truthy levelAt0
   \<and> scalar (field levelUndated ''DATE'') \<and> scalar (field levelAt0 ''DATE'')
   \<and> timeOf testPlatform levelUndated = None
   \<and> isLater testPlatform levelUndated levelAt0 = Inr False
   \<and> keepLatest testPlatform [(ByValue (JStr ''Level''), levelAt0)] [(1, levelUndated)]
       = Inr [(ByValue (JStr ''Level''), levelAt0)]"
proof -
  have a: "truthy levelUndated" "truthy levelAt0"
    by (simp_all add: levelUndated_def levelAt0_def)
  have b: "scalar (field levelUndated ''DATE'')" "scalar (field levelAt0 ''DATE'')"
    by (simp_all add: field_def levelUndated_def levelAt0_def)
  have t: "timeOf testPlatform levelUndated = None"
    by (simp add: timeOf_def rowDate_def andThen_def levelUndated_def testPlatform_def
        testDateParse_def)
  have k: "map_of [(ByValue (JStr ''Level''), levelAt0)] (entryKey (1, levelUndated)) = Some levelAt0"
    by (simp add: entryKey_def parameterOf_def field_def levelUndated_def)
  note inst = isLater_total_and_false_for_invalid [OF a b, of testPlatform
      "[(ByValue (JStr ''Level''), levelAt0)]" 1 "[]"]
  from inst t have "isLater testPlatform levelUndated levelAt0 = Inr False" by auto
  moreover from inst t k have "keepLatest testPlatform [(ByValue (JStr ''Level''), levelAt0)]
      [(1, levelUndated)] = Inr [(ByValue (JStr ''Level''), levelAt0)]" by simp
  ultimately show ?thesis using a b t by simp
qed


section \<open>The station lookup\<close>

lemma truthy_object: "isObject x \<Longrightarrow> truthy x"
  by (cases x) simp_all

lemma showNat_0: "showNat 0 = ''0''"
  by code_simp

lemma showNat_1: "showNat (Suc 0) = ''1''"
  by code_simp

lemma showNat_500: "showNat 500 = ''500''"
  by code_simp

lemma getProp_present: "p \<noteq> JUndefined \<Longrightarrow> p \<noteq> JNull \<Longrightarrow> getProp p q = Inr (field p q)"
  by (cases p) (simp_all add: field_def)

lemma field_of_nothing: "field JUndefined q = JUndefined" "field JNull q = JUndefined"
  by (simp_all add: field_def)

lemma callToString_scalarText:
  "scalar v \<Longrightarrow> callToString P (orElse v (JStr [])) = Inr (if truthy v then scalarText P v else [])"
  by (cases v) (simp_all add: callToString_def orElse_def)

lemma stationIdOf_identifierText:
  assumes "identifiedFeature x"
  shows "stationIdOf P x = Inr (identifierText P x)"
proof -
  let ?p = "field x ''properties''"
  from assms have x: "getProp x ''properties'' = Inr ?p"
    by (simp add: identifiedFeature_def getProp_truthy truthy_object)
  from assms have s: "scalar (identifierOf x)"
    by (simp add: identifiedFeature_def)
  have "(if ?p = JUndefined \<or> ?p = JNull then Inr JUndefined else getProp ?p ''STATION_NUMBER'')
      = Inr (identifierOf x)"
    by (auto simp: identifierOf_def field_of_nothing getProp_present)
  with x show ?thesis
    using callToString_scalarText [OF s, of P]
    by (simp add: stationIdOf_def andThen_def identifierText_def)
qed

lemma findE_firstMatch:
  assumes "\<forall>x \<in> set feats. identifiedFeature x"
  shows "findE (\<lambda>x. andThen (stationIdOf P x) (\<lambda>s. Inr (s = stationNumber))) feats
         = Inr (case firstMatch P stationNumber feats of None \<Rightarrow> JUndefined | Some f \<Rightarrow> f)"
  using assms
proof (induction feats)
  case Nil
  then show ?case by (simp add: firstMatch_def)
next
  case (Cons x feats)
  then have s: "stationIdOf P x = Inr (identifierText P x)"
    by (simp add: stationIdOf_identifierText)
  from Cons have "findE (\<lambda>x. andThen (stationIdOf P x) (\<lambda>s. Inr (s = stationNumber))) feats
      = Inr (case firstMatch P stationNumber feats of None \<Rightarrow> JUndefined | Some f \<Rightarrow> f)"
    by simp
  with s show ?case
    by (simp add: firstMatch_def andThen_def)
qed

text \<open>
  The claim C4 as it is written fails: the second feature of the result set has the
  station identifier 0, which coerced to a string is the requested \<^verbatim>\<open>"0"\<close>, and the
  lookup does not select it; it takes the identifier for the empty string, finds no
  match, and answers with the first feature.
\<close>

theorem identifier_zero_is_not_matched:
  "identifierOf featureZero = JNum (Finite 0)
   \<and> ToString testPlatform (identifierOf featureZero) = Inr ''0''
   \<and> selectFeature testPlatform ''0'' [featureA, featureZero] = Inr featureA
   \<and> featureA \<noteq> featureZero"
  by (simp add: identifierOf_def field_def featureZero_def featureA_def stationFeature_def
      testPlatform_def testNumberToString_def showNat_0 selectFeature_def stationIdOf_def
      andThen_def orElse_def callToString_def elemAt_def)

text \<open>
  Claim C4, amended. On a result set of feature objects whose station identifiers are
  scalars or absent, the lookup selects the first feature whose identifier, when it is
  truthy, coerced to a string equals the requested one exactly (an identifier that is
  absent or falsy counts as the empty string), and the first feature of the set when
  none does. For the stations A, B and C a request for B gives the feature of B, and a
  request for X, which matches nothing, gives the feature of A.
\<close>

theorem selectFeature_first_text_match_or_first:
  assumes "\<forall>x \<in> set feats. identifiedFeature x"
  shows "selectFeature P stationNumber feats
         = Inr (case List.find (\<lambda>x. identifierText P x = stationNumber) feats of
                  Some f \<Rightarrow> f
                | None \<Rightarrow> (case feats of [] \<Rightarrow> JUndefined | f # rest \<Rightarrow> f))"
proof -
  have f: "findE (\<lambda>x. andThen (stationIdOf P x) (\<lambda>s. Inr (s = stationNumber))) feats
         = Inr (case firstMatch P stationNumber feats of None \<Rightarrow> JUndefined | Some f \<Rightarrow> f)"
    using assms by (rule findE_firstMatch)
  show ?thesis
  proof (cases "firstMatch P stationNumber feats")
    case None
    with f show ?thesis
      by (simp add: selectFeature_def andThen_def orElse_def elemAt_def firstMatch_def
          split: list.splits)
  next
    case (Some x)
    then have "x \<in> set feats"
      by (auto simp: firstMatch_def find_Some_iff)
    with assms have "truthy x" by (simp add: identifiedFeature_def truthy_object)
    with f Some show ?thesis
      by (simp add: selectFeature_def andThen_def orElse_def firstMatch_def)
  qed
qed

theorem selectFeature_first_text_match_or_first_witness:
  "identifiedFeature featureA \<and> identifiedFeature featureB \<and> identifiedFeature featureC
   \<and> identifierText testPlatform featureA = ''A''
   \<and> identifierText testPlatform featureB = ''B''
   \<and> identifierText testPlatform featureC = ''C''
   \<and> selectFeature testPlatform ''B'' [featureA, featureB, featureC] = Inr featureB
   \<and> selectFeature testPlatform ''X'' [featureA, featureB, featureC] = Inr featureA"
proof -
  have o: "identifiedFeature featureA" "identifiedFeature featureB" "identifiedFeature featureC"
    by (simp_all add: identifiedFeature_def identifierOf_def field_def featureA_def featureB_def
        featureC_def stationFeature_def)
  have i: "identifierText testPlatform featureA = ''A''"
      "identifierText testPlatform featureB = ''B''"
      "identifierText testPlatform featureC = ''C''"
    by (simp_all add: identifierText_def identifierOf_def field_def featureA_def featureB_def
        featureC_def stationFeature_def)
  have h: "\<forall>x \<in> set [featureA, featureB, featureC]. identifiedFeature x"
    using o by simp
  have "selectFeature testPlatform ''B'' [featureA, featureB, featureC] = Inr featureB"
    using selectFeature_first_text_match_or_first [OF h, of testPlatform "''B''"] i by simp
  moreover have "selectFeature testPlatform ''X'' [featureA, featureB, featureC] = Inr featureA"
    using selectFeature_first_text_match_or_first [OF h, of testPlatform "''X''"] i by simp
  ultimately show ?thesis using o i by simp
qed

subsection \<open>The geometry check\<close>

lemma locate_usable:
  "locate stationNumber f =
     (if usableGeometry f
      then Inr \<lparr>lat = elemAt (elements (field (field f ''geometry'') ''coordinates'')) 1,
                 lon = elemAt (elements (field (field f ''geometry'') ''coordinates'')) 0,
                 props = orElse (field f ''properties'') (JObj [])\<rparr>
      else Inl (noGeometry stationNumber))"
proof (cases "truthy f \<and> truthy (field f ''geometry'')")
  case False
  then show ?thesis
    by (auto simp: locate_def usableGeometry_def getProp_truthy andThen_def)
next
  case True
  then show ?thesis
    by (cases "field (field f ''geometry'') ''coordinates''")
      (simp_all add: locate_def usableGeometry_def getProp_truthy andThen_def)
qed

text \<open>
  The claim C5 as it is written fails: the selected feature has a coordinate array of one
  element, and one of three, and the lookup returns a location for both instead of raising.
\<close>

theorem coordinates_of_other_length_are_accepted:
  "fetchHydrometricStationMeta testPlatform
     (answering 200 (Some (collection [stationFeature ''A'' [JNum (Finite 7)]]))) ''A''
   = ([stationsCqlRequest ''A''],
      Inr \<lparr>lat = JUndefined, lon = JNum (Finite 7),
           props = JObj [(''STATION_NUMBER'', JStr ''A'')]\<rparr>)
   \<and> fetchHydrometricStationMeta testPlatform
     (answering 200 (Some (collection
        [stationFeature ''A'' [JNum (Finite 7), JNum (Finite 8), JNum (Finite 9)]]))) ''A''
   = ([stationsCqlRequest ''A''],
      Inr \<lparr>lat = JNum (Finite 8), lon = JNum (Finite 7),
           props = JObj [(''STATION_NUMBER'', JStr ''A'')]\<rparr>)"
  by (simp add: fetchHydrometricStationMeta_def stationsJson_def stationsTryCql_def fetchJson_def
      answering_def ok_def stationFromJson_def collection_def stationFeature_def andThen_def
      orElse_def selectFeature_def stationIdOf_def callToString_def locate_def elemAt_def)

text \<open>
  Claim C5, amended. Once a feature is selected, the lookup raises the error
  \<^verbatim>\<open>No geometry for station <stationNumber>\<close> exactly when the feature is falsy, its
  geometry is falsy, or its coordinates are not an array. With an array of coordinates,
  of any length, it returns the second element as latitude and the first as longitude
  (\<^verbatim>\<open>undefined\<close> where the array is too short) with the properties of the selected
  feature (an empty object when they are falsy).
\<close>

theorem fetchHydrometricStationMeta_geometry:
  assumes "snd (stationsJson net stationNumber) = Inr j"
    and "getProp j ''features'' = Inr fs"
    and "asArray (orElse fs (JArr [])) = Inr feats"
    and "selectFeature P stationNumber feats = Inr f"
  shows "snd (fetchHydrometricStationMeta P net stationNumber) =
     (if usableGeometry f
      then Inr \<lparr>lat = elemAt (elements (field (field f ''geometry'') ''coordinates'')) 1,
                 lon = elemAt (elements (field (field f ''geometry'') ''coordinates'')) 0,
                 props = orElse (field f ''properties'') (JObj [])\<rparr>
      else Inl (Error (''No geometry for station '' @ stationNumber)))"
proof -
  have "snd (fetchHydrometricStationMeta P net stationNumber)
      = andThen (snd (stationsJson net stationNumber)) (stationFromJson P stationNumber)"
    by (simp add: fetchHydrometricStationMeta_def split: prod.splits)
  also have "\<dots> = stationFromJson P stationNumber j"
    using assms(1) by (simp add: andThen_def)
  also have "\<dots> = locate stationNumber f"
    using assms(2-4) by (simp add: stationFromJson_def andThen_def)
  finally show ?thesis
    by (simp add: locate_usable noGeometry_def)
qed

theorem fetchHydrometricStationMeta_geometry_witness:
  "snd (stationsJson (answering 200 (Some (collection [featureA, featureB]))) ''B'')
     = Inr (collection [featureA, featureB])
   \<and> getProp (collection [featureA, featureB]) ''features'' = Inr (JArr [featureA, featureB])
   \<and> selectFeature testPlatform ''B'' [featureA, featureB] = Inr featureB
   \<and> usableGeometry featureB
   \<and> snd (fetchHydrometricStationMeta testPlatform
          (answering 200 (Some (collection [featureA, featureB]))) ''B'')
       = Inr \<lparr>lat = JNum (Finite 51), lon = JNum (Finite (-105)),
              props = JObj [(''STATION_NUMBER'', JStr ''B'')]\<rparr>
   \<and> \<not> usableGeometry (JObj [(''geometry'', JNull)])
   \<and> snd (fetchHydrometricStationMeta testPlatform
          (answering 200 (Some (collection [JObj [(''geometry'', JNull)]]))) ''B'')
       = Inl (Error ''No geometry for station B'')"
proof -
  let ?net = "answering 200 (Some (collection [featureA, featureB]))"
  let ?bare = "JObj [(''geometry'', JNull)]"
  let ?net' = "answering 200 (Some (collection [?bare]))"
  have a: "snd (stationsJson ?net ''B'') = Inr (collection [featureA, featureB])"
    by (simp add: stationsJson_def stationsTryCql_def fetchJson_def answering_def ok_def)
  have b: "getProp (collection [featureA, featureB]) ''features'' = Inr (JArr [featureA, featureB])"
    by (simp add: collection_def)
  have c: "asArray (orElse (JArr [featureA, featureB]) (JArr [])) = Inr [featureA, featureB]"
    by (simp add: orElse_def)
  have d: "selectFeature testPlatform ''B'' [featureA, featureB] = Inr featureB"
    by (simp add: selectFeature_def stationIdOf_def andThen_def orElse_def callToString_def
        featureA_def featureB_def stationFeature_def)
  have u: "usableGeometry featureB"
    by (simp add: usableGeometry_def field_def featureB_def stationFeature_def)
  have a': "snd (stationsJson ?net' ''B'') = Inr (collection [?bare])"
    by (simp add: stationsJson_def stationsTryCql_def fetchJson_def answering_def ok_def)
  have b': "getProp (collection [?bare]) ''features'' = Inr (JArr [?bare])"
    by (simp add: collection_def)
  have c': "asArray (orElse (JArr [?bare]) (JArr [])) = Inr [?bare]"
    by (simp add: orElse_def)
  have d': "selectFeature testPlatform ''B'' [?bare] = Inr ?bare"
    by (simp add: selectFeature_def stationIdOf_def andThen_def orElse_def callToString_def
        elemAt_def)
  have u': "\<not> usableGeometry ?bare"
    by (simp add: usableGeometry_def field_def)
  have "snd (fetchHydrometricStationMeta testPlatform ?net ''B'')
       = Inr \<lparr>lat = JNum (Finite 51), lon = JNum (Finite (-105)),
              props = JObj [(''STATION_NUMBER'', JStr ''B'')]\<rparr>"
    using fetchHydrometricStationMeta_geometry [OF a b c d] u
    by (simp add: field_def featureB_def stationFeature_def elemAt_def orElse_def)
  moreover have "snd (fetchHydrometricStationMeta testPlatform ?net' ''B'')
       = Inl (Error ''No geometry for station B'')"
    using fetchHydrometricStationMeta_geometry [OF a' b' c' d'] u' by simp
  ultimately show ?thesis using a b d u u' by simp
qed


section \<open>When the second request is issued\<close>

lemma fetchJson_obtained:
  "(fetchJson net rq label = Inr j) = (obtained (net rq) = Some j)"
  by (cases "net rq") (auto simp: fetchJson_def split: option.splits)

lemma fetchJson_failed:
  "(\<exists>e. fetchJson net rq label = Inl e) = (obtained (net rq) = None)"
  by (cases "net rq") (auto simp: fetchJson_def split: option.splits)

lemma stations_primary_obtained:
  assumes "obtained (net (stationsCqlRequest stationNumber)) = Some j"
  shows "fetchHydrometricStationMeta P net stationNumber
         = ([stationsCqlRequest stationNumber], stationFromJson P stationNumber j)"
proof -
  from assms have "stationsTryCql net stationNumber = Inr j"
    by (simp add: stationsTryCql_def fetchJson_obtained)
  then show ?thesis
    by (simp add: fetchHydrometricStationMeta_def stationsJson_def andThen_def)
qed

lemma stations_primary_failed:
  assumes "obtained (net (stationsCqlRequest stationNumber)) = None"
  shows "fetchHydrometricStationMeta P net stationNumber
         = ([stationsCqlRequest stationNumber, stationsUnfilteredRequest],
            andThen (stationsTryUnfiltered net stationNumber) (stationFromJson P stationNumber))"
proof -
  from assms obtain e where "stationsTryCql net stationNumber = Inl e"
    using fetchJson_failed [of net "stationsCqlRequest stationNumber"]
    by (auto simp: stationsTryCql_def)
  then show ?thesis
    by (simp add: fetchHydrometricStationMeta_def stationsJson_def)
qed

lemma realtime_primary_obtained:
  assumes "obtained (net (realtimeCqlRequest stationNumber)) = Some j"
  shows "fetchHydrometricRealtimeLatest P net stationNumber
         = ([realtimeCqlRequest stationNumber], latestFromJson P stationNumber j)"
proof -
  from assms have "realtimeTryCql net stationNumber = Inr j"
    by (simp add: realtimeTryCql_def fetchJson_obtained)
  then show ?thesis
    by (simp add: fetchHydrometricRealtimeLatest_def realtimeJson_def andThen_def)
qed

lemma realtime_primary_failed:
  assumes "obtained (net (realtimeCqlRequest stationNumber)) = None"
  shows "fetchHydrometricRealtimeLatest P net stationNumber
         = ([realtimeCqlRequest stationNumber, realtimeUnfilteredRequest],
            andThen (realtimeTryUnfiltered net stationNumber) (latestFromJson P stationNumber))"
proof -
  from assms obtain e where "realtimeTryCql net stationNumber = Inl e"
    using fetchJson_failed [of net "realtimeCqlRequest stationNumber"]
    by (auto simp: realtimeTryCql_def)
  then show ?thesis
    by (simp add: fetchHydrometricRealtimeLatest_def realtimeJson_def)
qed

text \<open>
  What the code does: the unfiltered request is issued exactly when the filtered request
  fails (the fetch rejects, the status is not a success, or the body does not read as
  JSON). When the filtered request succeeds, whatever its result set holds, no second
  request is issued and the local match runs on its body; when it fails, the local match
  runs on the body of the unfiltered request. The realtime lookup issues its requests the
  same way.
\<close>

lemma second_request_exactly_on_failed_first:
  "(\<forall>j. obtained (net (stationsCqlRequest stationNumber)) = Some j \<longrightarrow>
      fetchHydrometricStationMeta P net stationNumber
        = ([stationsCqlRequest stationNumber], stationFromJson P stationNumber j))
   \<and> (obtained (net (stationsCqlRequest stationNumber)) = None \<longrightarrow>
      fetchHydrometricStationMeta P net stationNumber
        = ([stationsCqlRequest stationNumber, stationsUnfilteredRequest],
           andThen (stationsTryUnfiltered net stationNumber) (stationFromJson P stationNumber)))
   \<and> (\<forall>j. obtained (net (realtimeCqlRequest stationNumber)) = Some j \<longrightarrow>
      fetchHydrometricRealtimeLatest P net stationNumber
        = ([realtimeCqlRequest stationNumber], latestFromJson P stationNumber j))
   \<and> (obtained (net (realtimeCqlRequest stationNumber)) = None \<longrightarrow>
      fetchHydrometricRealtimeLatest P net stationNumber
        = ([realtimeCqlRequest stationNumber, realtimeUnfilteredRequest],
           andThen (realtimeTryUnfiltered net stationNumber) (latestFromJson P stationNumber)))"
  using stations_primary_obtained [of net stationNumber _ P]
    stations_primary_failed [of net stationNumber P]
    realtime_primary_obtained [of net stationNumber _ P]
    realtime_primary_failed [of net stationNumber P]
  by blast

text \<open>
  Claim C2 fails on the code. The filtered request for station B succeeds with a result
  set that does not hold B (the service left the filter aside and sent the one feature
  the limit allows, that of station A). The lookup issues no second request, although
  the comment of the unfiltered query says it is there to match locally when the service
  leaves the filter aside, and it answers a request for B with the location of A.
\<close>

theorem ineffective_primary_triggers_no_fallback:
  "obtained (answering 200 (Some (collection [featureA])) (stationsCqlRequest ''B''))
     = Some (collection [featureA])
   \<and> firstMatch testPlatform ''B'' [featureA] = None
   \<and> fetchHydrometricStationMeta testPlatform (answering 200 (Some (collection [featureA]))) ''B''
     = ([stationsCqlRequest ''B''],
        Inr \<lparr>lat = JNum (Finite 50), lon = JNum (Finite (-104)),
             props = JObj [(''STATION_NUMBER'', JStr ''A'')]\<rparr>)"
  by (simp add: fetchHydrometricStationMeta_def stationsJson_def stationsTryCql_def fetchJson_def
      answering_def ok_def stationFromJson_def collection_def featureA_def stationFeature_def
      andThen_def orElse_def selectFeature_def stationIdOf_def callToString_def locate_def
      elemAt_def firstMatch_def identifierText_def identifierOf_def field_def)

section \<open>The feature layer request\<close>

text \<open>
  The claim C8 as it is written fails: on a status 500 the error raised holds the status
  and not the endpoint that was requested.
\<close>

theorem layer_error_does_not_hold_the_endpoint:
  "fetchArcGISLayerGeoJSON testPlatform (answering 500 None) ''https://example.org/FeatureServer/0''
     [JNum (Finite 0), JNum (Finite 0), JNum (Finite 1), JNum (Finite 1)]
   = ([layerRequest ''https://example.org/FeatureServer/0'' ''0,0,1,1''],
      Inl (Error ''ArcGIS layer: 500''))
   \<and> \<not> sublist ''https://example.org/FeatureServer/0'' ''ArcGIS layer: 500''
   \<and> \<not> sublist ''https://example.org/FeatureServer/0/query'' ''ArcGIS layer: 500''"
proof -
  have "\<not> sublist ''https://example.org/FeatureServer/0'' ''ArcGIS layer: 500''"
    by code_simp
  moreover have "\<not> sublist ''https://example.org/FeatureServer/0/query'' ''ArcGIS layer: 500''"
    by code_simp
  moreover have "fetchArcGISLayerGeoJSON testPlatform (answering 500 None)
     ''https://example.org/FeatureServer/0''
     [JNum (Finite 0), JNum (Finite 0), JNum (Finite 1), JNum (Finite 1)]
   = ([layerRequest ''https://example.org/FeatureServer/0'' ''0,0,1,1''],
      Inl (Error ''ArcGIS layer: 500''))"
    by (simp add: fetchArcGISLayerGeoJSON_def testPlatform_def testNumberToString_def
        showNat_0 showNat_1 showNat_500 fetchJson_def answering_def ok_def)
  ultimately show ?thesis by simp
qed

text \<open>
  Claim C8, amended. Where the address is a URL and the box converts to text, the helper
  issues one request. On a status that is not a success it raises at once the error
  \<^verbatim>\<open>ArcGIS layer: <status>\<close>, which holds the status and nothing of the endpoint; no
  other request follows. On a success it returns the parsed body as it is (and rejects
  when the body does not read as JSON).
\<close>

theorem fetchArcGISLayerGeoJSON_one_request:
  assumes "urlParses P (stripTrailingSlashes featureServerUrl @ ''/query'')"
    and "join P bbox = Inr geometry"
    and "net (layerRequest featureServerUrl geometry) = Resolved r"
  shows "fetchArcGISLayerGeoJSON P net featureServerUrl bbox
         = ([layerRequest featureServerUrl geometry],
            (if ok r then (case body r of Some j \<Rightarrow> Inr j | None \<Rightarrow> Inl BodyRejected)
             else Inl (Error (''ArcGIS layer: '' @ showNat (status r)))))"
  using assms by (simp add: fetchArcGISLayerGeoJSON_def fetchJson_def split: option.splits)

theorem fetchArcGISLayerGeoJSON_one_request_witness:
  "urlParses testPlatform (stripTrailingSlashes ''https://example.org/FeatureServer/0//'' @ ''/query'')
   \<and> join testPlatform [JNum (Finite 0), JNum (Finite 1)] = Inr ''0,1''
   \<and> fetchArcGISLayerGeoJSON testPlatform (answering 500 None)
         ''https://example.org/FeatureServer/0//'' [JNum (Finite 0), JNum (Finite 1)]
       = ([layerRequest ''https://example.org/FeatureServer/0'' ''0,1''],
          Inl (Error ''ArcGIS layer: 500''))
   \<and> fetchArcGISLayerGeoJSON testPlatform (answering 200 (Some (collection [featureA])))
         ''https://example.org/FeatureServer/0//'' [JNum (Finite 0), JNum (Finite 1)]
       = ([layerRequest ''https://example.org/FeatureServer/0'' ''0,1''],
          Inr (collection [featureA]))"
proof -
  let ?url = "''https://example.org/FeatureServer/0//''"
  let ?box = "[JNum (Finite 0), JNum (Finite 1)]"
  have u: "urlParses testPlatform (stripTrailingSlashes ?url @ ''/query'')"
    by (simp add: testPlatform_def)
  have g: "join testPlatform ?box = Inr ''0,1''"
    by (simp add: testPlatform_def testNumberToString_def showNat_0 showNat_1)
  have l: "layerRequest ?url ''0,1'' = layerRequest ''https://example.org/FeatureServer/0'' ''0,1''"
    by (simp add: layerRequest_def stripTrailingSlashes_def)
  have n: "answering 500 None (layerRequest ?url ''0,1'') = Resolved (Response 500 None)"
      "answering 200 (Some (collection [featureA])) (layerRequest ?url ''0,1'')
        = Resolved (Response 200 (Some (collection [featureA])))"
    by (simp_all add: answering_def)
  note bad = fetchArcGISLayerGeoJSON_one_request [of testPlatform ?url ?box "''0,1''"
      "answering 500 None" "Response 500 None", OF u g n(1)]
  note good = fetchArcGISLayerGeoJSON_one_request [of testPlatform ?url ?box "''0,1''"
      "answering 200 (Some (collection [featureA]))"
      "Response 200 (Some (collection [featureA]))", OF u g n(2)]
  from bad good u g l show ?thesis by (simp add: ok_def showNat_500)
qed

section \<open>The guard\<close>

lemma tryOrNull_fulfilled: "tryOrNull P (Fulfilled v) label = Inr (Some v)"
  by (simp add: tryOrNull_def)

lemma tryOrNull_error_object: "tryOrNull P (RejectedWith (ErrorObject name msg)) label = Inr None"
  by (simp add: tryOrNull_def andThen_def)

lemma tryOrNull_text: "tryOrNull P (RejectedWith (Thrown (JStr s))) label = Inr None"
  by (simp add: tryOrNull_def andThen_def orElse_def)

text \<open>
  Claim C9 fails on the code: a promise rejected with \<^verbatim>\<open>undefined\<close> or \<^verbatim>\<open>null\<close> (as
  \<^verbatim>\<open>Promise.reject()\<close> does) makes the \<^verbatim>\<open>catch\<close> block read \<^verbatim>\<open>e.message\<close> of a value
  that has no properties, so \<^verbatim>\<open>tryOrNull\<close> throws a TypeError of its own instead of
  returning \<^verbatim>\<open>null\<close>. The same happens for a rejection value whose conversion to a
  string throws.
\<close>

theorem tryOrNull_throws_on_nullish_rejection:
  "tryOrNull P (RejectedWith (Thrown JUndefined)) label = Inl TypeError
   \<and> tryOrNull P (RejectedWith (Thrown JNull)) label = Inl TypeError
   \<and> tryOrNull P (RejectedWith (Thrown (JObj [(''toString'', JNull)]))) label = Inl TypeError"
  by (simp add: tryOrNull_def andThen_def orElse_def)


section \<open>The realtime lookup as a whole\<close>

lemma mapE_total:
  "\<forall>x \<in> set xs. \<exists>y. f x = Inr y \<and> Q y \<Longrightarrow> \<exists>ys. mapE f xs = Inr ys \<and> list_all Q ys"
proof (induction xs)
  case Nil
  then show ?case by simp
next
  case (Cons x xs)
  then obtain y where y: "f x = Inr y" "Q y" by auto
  from Cons obtain ys where ys: "mapE f xs = Inr ys" "list_all Q ys" by auto
  from y ys show ?case by (simp add: andThen_def)
qed

lemma filterE_total:
  "\<forall>x \<in> set xs. \<exists>b. p x = Inr b \<Longrightarrow> \<exists>ys. filterE p xs = Inr ys \<and> set ys \<subseteq> set xs"
proof (induction xs)
  case Nil
  then show ?case by simp
next
  case (Cons x xs)
  then obtain b where b: "p x = Inr b" by auto
  from Cons obtain ys where ys: "filterE p xs = Inr ys" "set ys \<subseteq> set xs" by auto
  from b ys show ?case by (auto simp: andThen_def)
qed

lemma filterE_none:
  "\<forall>x \<in> set xs. p x = Inr False \<Longrightarrow> filterE p xs = Inr []"
  by (induction xs) (simp_all add: andThen_def)

lemma rowOf_feature: "feature f \<Longrightarrow> \<exists>row. rowOf f = Inr row \<and> plainRow row"
proof -
  assume f: "feature f"
  then have t: "truthy f" by (simp add: feature_def truthy_object)
  from f have "plainProperties (field f ''properties'')" by (simp add: feature_def)
  then have "plainRow (orElse (field f ''properties'') (JObj []))"
    by (cases "field f ''properties''") (simp_all add: orElse_def plainRow_def field_def)
  with t show ?thesis
    by (simp add: rowOf_def getProp_truthy andThen_def)
qed

lemma realtimeRows_featureCollection:
  assumes "featureCollection j"
  shows "\<exists>rows. realtimeRows j = Inr rows \<and> list_all plainRow rows"
proof -
  from assms have t: "truthy j" by (simp add: featureCollection_def truthy_object)
  show ?thesis
  proof (cases "field j ''features''")
    case JUndefined
    with t show ?thesis
      by (simp add: realtimeRows_def getProp_truthy andThen_def orElse_def)
  next
    case (JArr fs)
    with assms have "\<forall>f \<in> set fs. \<exists>row. rowOf f = Inr row \<and> plainRow row"
      by (simp add: featureCollection_def list_all_iff rowOf_feature)
    then obtain rows where "mapE rowOf fs = Inr rows" "list_all plainRow rows"
      using mapE_total [of fs rowOf plainRow] by auto
    with t JArr show ?thesis
      by (simp add: realtimeRows_def getProp_truthy andThen_def orElse_def)
  qed (use assms in \<open>simp_all add: featureCollection_def\<close>)
qed

lemma callToString_scalar: "scalar v \<Longrightarrow> \<exists>s. callToString P (orElse v (JStr [])) = Inr s"
  by (cases v) (simp_all add: callToString_def orElse_def)

lemma stationMatches_plainRow: "plainRow r \<Longrightarrow> \<exists>b. stationMatches P stationNumber r = Inr b"
proof -
  assume r: "plainRow r"
  then have "truthy r" by (simp add: plainRow_def truthy_object)
  moreover from r obtain s where "callToString P (orElse (field r ''STATION_NUMBER'') (JStr [])) = Inr s"
    using callToString_scalar [of "field r ''STATION_NUMBER''" P] by (auto simp: plainRow_def)
  ultimately show ?thesis
    by (simp add: stationMatches_def getProp_truthy andThen_def)
qed

lemma localRows_plainRows:
  assumes "list_all plainRow rows"
  shows "\<exists>kept. localRows P stationNumber rows = Inr kept \<and> set kept \<subseteq> set rows"
proof -
  have "\<forall>r \<in> set rows. \<exists>b. stationMatches P stationNumber r = Inr b"
    using assms by (simp add: list_all_iff stationMatches_plainRow)
  then obtain kept where k: "filterE (stationMatches P stationNumber) rows = Inr kept"
      "set kept \<subseteq> set rows"
    using filterE_total [of rows "stationMatches P stationNumber"] by auto
  show ?thesis
  proof (cases rows)
    case Nil
    with k show ?thesis by (simp add: localRows_def)
  next
    case (Cons r0 rest)
    with assms have "truthy r0" by (simp add: plainRow_def truthy_object)
    with k Cons show ?thesis
      by (auto simp: localRows_def getProp_truthy andThen_def)
  qed
qed

lemma latestFromJson_featureCollection:
  assumes "featureCollection j"
  shows "\<exists>out. latestFromJson P stationNumber j = Inr out"
proof -
  from realtimeRows_featureCollection [OF assms] obtain rows
    where rows: "realtimeRows j = Inr rows" "list_all plainRow rows" by auto
  from localRows_plainRows [OF rows(2), of P stationNumber] obtain kept
    where kept: "localRows P stationNumber rows = Inr kept" "set kept \<subseteq> set rows" by auto
  have "\<forall>r \<in> set kept. datable P r"
    using kept(2) rows(2)
    by (auto simp: list_all_iff plainRow_def intro!: datable_scalar truthy_object)
  then have "mostRecentPerParameter P kept
      = Inr (map snd (foldl (keepStep P) [] (enumerate 0 kept)))"
    by (rule mostRecent_fold)
  with rows(1) kept(1) show ?thesis
    by (simp add: latestFromJson_def andThen_def)
qed

lemma mostRecent_nothing: "mostRecentPerParameter P [] = Inr []"
  by (simp add: mostRecentPerParameter_def enumerate_eq_zip andThen_def)

lemma latestFromJson_no_match:
  assumes "realtimeRows j = Inr rows"
    and "rows = [] \<or> truthy (field (hd rows) ''STATION_NUMBER'')"
    and "\<forall>r \<in> set rows. stationMatches P stationNumber r = Inr False"
  shows "latestFromJson P stationNumber j = Inr []"
proof -
  have f: "filterE (stationMatches P stationNumber) rows = Inr []"
    using assms(3) by (rule filterE_none)
  have "localRows P stationNumber rows = Inr []"
  proof (cases rows)
    case Nil
    then show ?thesis by (simp add: localRows_def)
  next
    case (Cons r0 rest)
    with assms(3) have "stationMatches P stationNumber r0 = Inr False" by simp
    then obtain v where v: "getProp r0 ''STATION_NUMBER'' = Inr v"
      by (auto simp: stationMatches_def andThen_def split: sum.splits)
    then have "field r0 ''STATION_NUMBER'' = v" by (simp add: field_def)
    with assms(2) Cons have "truthy v" by simp
    with v f Cons show ?thesis by (simp add: localRows_def andThen_def)
  qed
  with assms(1) show ?thesis
    by (simp add: latestFromJson_def andThen_def mostRecent_nothing)
qed

lemma fetchJson_error:
  "fetchJson net rq label = Inl e \<Longrightarrow>
   e = FetchRejected \<or> e = BodyRejected \<or> (\<exists>st. e = Error (label @ '': '' @ showNat st))"
  by (cases "net rq") (auto simp: fetchJson_def split: if_splits option.splits)


text \<open>
  The claim C7 as it is written fails: the response holds one row, which has no station
  identifier and so does not match the requested station; the local filter is skipped
  and the row is returned.
\<close>

theorem unmatched_rows_are_returned_when_unidentified:
  "stationMatches testPlatform ''05JF003'' levelAt0 = Inr False
   \<and> fetchHydrometricRealtimeLatest testPlatform
       (answering 200 (Some (collection [JObj [(''properties'', levelAt0)]]))) ''05JF003''
     = ([realtimeCqlRequest ''05JF003''], Inr [levelAt0])"
  by (simp add: fetchHydrometricRealtimeLatest_def realtimeJson_def realtimeTryCql_def
      fetchJson_def answering_def ok_def latestFromJson_def realtimeRows_def rowOf_def
      collection_def andThen_def orElse_def localRows_def stationMatches_def callToString_def
      mostRecentPerParameter_def enumerate_eq_zip mapGet_def levelAt0_def)

text \<open>
  Claim C7, amended. When the body obtained holds no row, or holds rows of which the first
  carries a station identifier and none matches the requested station, the realtime
  lookup returns the empty sequence and raises nothing. (Rows whose first has no station
  identifier are all kept.) Where the bodies the service answers with are feature
  collections, the lookup raises only when the filtered request failed and the unfiltered
  request failed too, and what it raises is the failure of the unfiltered request: the
  rejection of the fetch, the rejection of the body, or the error that carries the
  station and the status.
\<close>

theorem realtime_no_match_is_empty_and_errors_are_fetch_failures:
  "(\<forall>j rows. snd (realtimeJson net stationNumber) = Inr j \<longrightarrow> realtimeRows j = Inr rows \<longrightarrow>
      (rows = [] \<or> truthy (field (hd rows) ''STATION_NUMBER'')) \<longrightarrow>
      (\<forall>r \<in> set rows. stationMatches P stationNumber r = Inr False) \<longrightarrow>
      snd (fetchHydrometricRealtimeLatest P net stationNumber) = Inr [])
   \<and> ((\<forall>j. obtained (net (realtimeCqlRequest stationNumber)) = Some j
             \<or> obtained (net realtimeUnfilteredRequest) = Some j \<longrightarrow> featureCollection j) \<longrightarrow>
       (\<forall>e. snd (fetchHydrometricRealtimeLatest P net stationNumber) = Inl e \<longrightarrow>
          obtained (net (realtimeCqlRequest stationNumber)) = None
          \<and> obtained (net realtimeUnfilteredRequest) = None
          \<and> realtimeTryUnfiltered net stationNumber = Inl e
          \<and> (e = FetchRejected \<or> e = BodyRejected
              \<or> (\<exists>st. e = Error (''realtime (fallback) '' @ stationNumber @ '': '' @ showNat st)))))"
proof -
  have part1: "snd (fetchHydrometricRealtimeLatest P net stationNumber) = Inr []"
    if j: "snd (realtimeJson net stationNumber) = Inr j"
      and rows: "realtimeRows j = Inr rows"
      and first: "rows = [] \<or> truthy (field (hd rows) ''STATION_NUMBER'')"
      and none: "\<forall>r \<in> set rows. stationMatches P stationNumber r = Inr False"
    for j rows
  proof -
    have "snd (fetchHydrometricRealtimeLatest P net stationNumber)
        = andThen (snd (realtimeJson net stationNumber)) (latestFromJson P stationNumber)"
      by (simp add: fetchHydrometricRealtimeLatest_def split: prod.splits)
    also have "\<dots> = latestFromJson P stationNumber j"
      using j by (simp add: andThen_def)
    also have "\<dots> = Inr []"
      using rows first none by (rule latestFromJson_no_match)
    finally show ?thesis .
  qed
  have part2: "obtained (net (realtimeCqlRequest stationNumber)) = None
          \<and> obtained (net realtimeUnfilteredRequest) = None
          \<and> realtimeTryUnfiltered net stationNumber = Inl e
          \<and> (e = FetchRejected \<or> e = BodyRejected
              \<or> (\<exists>st. e = Error (''realtime (fallback) '' @ stationNumber @ '': '' @ showNat st)))"
    if wf: "\<forall>j. obtained (net (realtimeCqlRequest stationNumber)) = Some j
             \<or> obtained (net realtimeUnfilteredRequest) = Some j \<longrightarrow> featureCollection j"
      and e: "snd (fetchHydrometricRealtimeLatest P net stationNumber) = Inl e"
    for e
  proof -
    have primary: "obtained (net (realtimeCqlRequest stationNumber)) = None"
    proof (rule ccontr)
      assume "obtained (net (realtimeCqlRequest stationNumber)) \<noteq> None"
      then obtain j where j: "obtained (net (realtimeCqlRequest stationNumber)) = Some j" by auto
      with wf have "featureCollection j" by blast
      then obtain out where "latestFromJson P stationNumber j = Inr out"
        using latestFromJson_featureCollection by blast
      with realtime_primary_obtained [of net stationNumber j P] j e show False by simp
    qed
    note failed = realtime_primary_failed [of net stationNumber P, OF primary]
    have fallback: "realtimeTryUnfiltered net stationNumber = Inl e"
    proof (cases "realtimeTryUnfiltered net stationNumber")
      case (Inl e')
      with failed e show ?thesis by (simp add: andThen_def)
    next
      case (Inr j)
      then have "obtained (net realtimeUnfilteredRequest) = Some j"
        by (simp add: realtimeTryUnfiltered_def fetchJson_obtained)
      with wf have "featureCollection j" by blast
      then obtain out where "latestFromJson P stationNumber j = Inr out"
        using latestFromJson_featureCollection by blast
      with failed e Inr show ?thesis by (simp add: andThen_def)
    qed
    then have none: "obtained (net realtimeUnfilteredRequest) = None"
      using fetchJson_failed [of net realtimeUnfilteredRequest "''realtime (fallback) '' @ stationNumber"]
      by (auto simp: realtimeTryUnfiltered_def)
    have form: "e = FetchRejected \<or> e = BodyRejected
        \<or> (\<exists>st. e = Error (''realtime (fallback) '' @ stationNumber @ '': '' @ showNat st))"
      using fetchJson_error [of net realtimeUnfilteredRequest
          "''realtime (fallback) '' @ stationNumber" e] fallback
      by (simp add: realtimeTryUnfiltered_def)
    from primary none fallback form show ?thesis by blast
  qed
  show ?thesis
  proof (intro conjI allI impI)
    fix j rows
    assume "snd (realtimeJson net stationNumber) = Inr j" "realtimeRows j = Inr rows"
      "rows = [] \<or> truthy (field (hd rows) ''STATION_NUMBER'')"
      "\<forall>r \<in> set rows. stationMatches P stationNumber r = Inr False"
    then show "snd (fetchHydrometricRealtimeLatest P net stationNumber) = Inr []"
      by (rule part1)
  qed (use part2 in blast)+
qed


theorem realtime_no_match_is_empty_and_errors_are_fetch_failures_witness:
  "snd (realtimeJson (answering 200 (Some (collection [featureA]))) ''B'')
     = Inr (collection [featureA])
   \<and> realtimeRows (collection [featureA]) = Inr [JObj [(''STATION_NUMBER'', JStr ''A'')]]
   \<and> truthy (field (JObj [(''STATION_NUMBER'', JStr ''A'')]) ''STATION_NUMBER'')
   \<and> stationMatches testPlatform ''B'' (JObj [(''STATION_NUMBER'', JStr ''A'')]) = Inr False
   \<and> snd (fetchHydrometricRealtimeLatest testPlatform
          (answering 200 (Some (collection [featureA]))) ''B'') = Inr []
   \<and> featureCollection (collection [featureA])
   \<and> snd (fetchHydrometricRealtimeLatest testPlatform (answering 500 None) ''B'')
       = Inl (Error ''realtime (fallback) B: 500'')
   \<and> obtained (answering 500 None (realtimeCqlRequest ''B'')) = None
   \<and> obtained (answering 500 None realtimeUnfilteredRequest) = None
   \<and> realtimeTryUnfiltered (answering 500 None) ''B'' = Inl (Error ''realtime (fallback) B: 500'')"
proof -
  let ?net = "answering 200 (Some (collection [featureA]))"
  let ?row = "JObj [(''STATION_NUMBER'', JStr ''A'')]"
  let ?down = "answering 500 None"
  have a: "snd (realtimeJson ?net ''B'') = Inr (collection [featureA])"
    by (simp add: realtimeJson_def realtimeTryCql_def fetchJson_def answering_def ok_def)
  have b: "realtimeRows (collection [featureA]) = Inr [?row]"
    by (simp add: realtimeRows_def rowOf_def collection_def featureA_def stationFeature_def
        andThen_def orElse_def)
  have c: "[?row] = [] \<or> truthy (field (hd [?row]) ''STATION_NUMBER'')"
    by (simp add: field_def)
  have d: "\<forall>r \<in> set [?row]. stationMatches testPlatform ''B'' r = Inr False"
    by (simp add: stationMatches_def andThen_def orElse_def callToString_def)
  have f: "featureCollection (collection [featureA])"
    by (simp add: featureCollection_def feature_def field_def collection_def featureA_def
        stationFeature_def)
  have e: "snd (fetchHydrometricRealtimeLatest testPlatform ?down ''B'')
       = Inl (Error ''realtime (fallback) B: 500'')"
    by (simp add: fetchHydrometricRealtimeLatest_def realtimeJson_def realtimeTryCql_def
        realtimeTryUnfiltered_def fetchJson_def answering_def ok_def andThen_def showNat_500)
  have wf: "\<forall>j. obtained (?down (realtimeCqlRequest ''B'')) = Some j
             \<or> obtained (?down realtimeUnfilteredRequest) = Some j \<longrightarrow> featureCollection j"
    by (simp add: answering_def ok_def)
  note ok = realtime_no_match_is_empty_and_errors_are_fetch_failures [of ?net "''B''" testPlatform]
  note down = realtime_no_match_is_empty_and_errors_are_fetch_failures [of ?down "''B''" testPlatform]
  from ok a b c d
  have r1: "snd (fetchHydrometricRealtimeLatest testPlatform ?net ''B'') = Inr []"
    by blast
  from down wf e
  have r2: "obtained (?down (realtimeCqlRequest ''B'')) = None
      \<and> obtained (?down realtimeUnfilteredRequest) = None
      \<and> realtimeTryUnfiltered ?down ''B'' = Inl (Error ''realtime (fallback) B: 500'')"
    by blast
  from a b c d f e r1 r2 show ?thesis by simp
qed


section \<open>The examples of the specification\<close>

text \<open>
  The realtime example: two levels an hour apart and a flow give the later level and the
  flow, in the order their keys were first seen.
\<close>

lemma realtime_example:
  "mostRecentPerParameter testPlatform [levelAt0, levelAt1, flowAt0] = Inr [levelAt1, flowAt0]"
  by (simp add: mostRecentPerParameter_def enumerate_eq_zip andThen_def mapGet_def isLater_def
      rowDate_def levelAt0_def levelAt1_def flowAt0_def testPlatform_def testDateParse_def)

text \<open>
  The station example: the filtered request answers with one feature, whose coordinates
  come back swapped into latitude and longitude.
\<close>

lemma station_example:
  "fetchHydrometricStationMeta testPlatform (answering 200 (Some (collection [featureA]))) ''A''
   = ([stationsCqlRequest ''A''],
      Inr \<lparr>lat = JNum (Finite 50), lon = JNum (Finite (-104)),
           props = JObj [(''STATION_NUMBER'', JStr ''A'')]\<rparr>)"
  by (simp add: fetchHydrometricStationMeta_def stationsJson_def stationsTryCql_def fetchJson_def
      answering_def ok_def stationFromJson_def collection_def featureA_def stationFeature_def
      andThen_def orElse_def selectFeature_def stationIdOf_def callToString_def locate_def
      elemAt_def)

text \<open>
  The fallback example: the filtered request fails, the unfiltered one answers with the
  stations A and B, and a request for a station that is neither resolves to A.
\<close>

lemma fallback_example:
  "fetchHydrometricStationMeta testPlatform
     (failingPrimary ''X'' (collection [featureA, featureB])) ''X''
   = ([stationsCqlRequest ''X'', stationsUnfilteredRequest],
      Inr \<lparr>lat = JNum (Finite 50), lon = JNum (Finite (-104)),
           props = JObj [(''STATION_NUMBER'', JStr ''A'')]\<rparr>)"
  by (simp add: fetchHydrometricStationMeta_def stationsJson_def stationsTryCql_def
      stationsTryUnfiltered_def fetchJson_def failingPrimary_def stationsCqlRequest_def
      stationsUnfilteredRequest_def realtimeCqlRequest_def cqlFilter_def
      ok_def stationFromJson_def collection_def featureA_def featureB_def stationFeature_def
      andThen_def orElse_def selectFeature_def stationIdOf_def callToString_def locate_def
      elemAt_def)

end
